theory Spec2Isabelle
  imports Main "HOL-Library.Sublist"
begin

section \<open>Zendesk migration proxy: data model\<close>

text \<open>
  A shallow embedding of \<^verbatim>\<open>src/server.js\<close>. The remote helpdesk API is an external
  service: it is a parameter \<open>srv\<close> of the model, a function from a request and the
  state of the outside world to an outcome and the next state of the world. Everything
  the server does that can be observed (HTTP requests, timers, console output) is
  appended to a trace.

  JSON payloads are typed after the resource schemas the code reads. Where the code
  guards a field (\<^verbatim>\<open>tags || []\<close>, \<^verbatim>\<open>users?.length\<close>, \<^verbatim>\<open>comments || []\<close>,
  \<^verbatim>\<open>via?.channel\<close>, \<^verbatim>\<open>error.response?.status\<close>) the field is optional in the model;
  where the code reads a property of a value that can be \<^verbatim>\<open>undefined\<close>, the model
  raises the \<^verbatim>\<open>TypeError\<close>. Identifiers are natural numbers, printed in decimal
  inside template strings; the \<^verbatim>\<open>id\<close> of a user in an answer can be missing or
  \<^verbatim>\<open>null\<close> (\<open>None\<close>), since the code stores it in the cache as it comes. Strings are
  byte strings.

  A handler or helper is a function from the state before the call to its result and the
  state after it: a call runs to its end before the next one starts. Calls that overlap
  at an \<^verbatim>\<open>await\<close> are not part of the model.
\<close>

type_synonym ident = nat

record credentials =
  subdomain :: string
  email :: string
  token :: string

record ticket =
  ticket_id :: ident
  ticket_subject :: string
  ticket_description :: string
  ticket_status :: string
  ticket_priority :: string
  ticket_type :: string
  ticket_tags :: "string list option"
  ticket_requester_id :: ident

record user =
  user_id :: "ident option"
  user_name :: string
  user_email :: string
  user_role :: string

record via =
  via_channel :: string

record comment =
  comment_body :: string
  comment_public :: bool
  comment_via :: "via option"

text \<open>The body of a response (\<^verbatim>\<open>response.data\<close>), by the property the code reads from it.\<close>

datatype payload =
    TicketData ticket
  | UserData user
  | UsersData "user list"
  | CommentsData "comment list"
  | RawData string

record response =
  resp_status :: nat
  resp_headers :: "(string \<times> string) list"
  resp_data :: payload

text \<open>A JavaScript error: its message and, for an HTTP error of axios, the response.\<close>

record js_error =
  err_message :: string
  err_response :: "response option"

datatype outcome = Resolved response | Rejected js_error

record auth =
  username :: string
  password :: string

text \<open>The draft a ticket is created from, and the user object a user is created from.\<close>

record ticket_draft =
  draft_subject :: string
  draft_description :: string
  draft_status :: string
  draft_priority :: string
  draft_type :: string
  draft_tags :: "string list"
  draft_requester_id :: "ident option"

record new_user =
  new_name :: string
  new_email :: string
  new_role :: string
  new_verified :: bool

datatype body =
    NoBody
  | TicketBody ticket_draft
  | UserBody new_user
  | CommentBody string bool
  | RawBody string

record request =
  req_method :: string
  req_url :: string
  req_auth :: auth
  req_data :: body
  req_headers :: "(string \<times> string) list"

text \<open>A JavaScript number as far as the timers need it: an integer or \<^verbatim>\<open>NaN\<close>.\<close>

datatype js_num = Num int | NaN

datatype event =
    Http request outcome
  | Sleep js_num
  | ConsoleLog string
  | ConsoleError string string

text \<open>
  The state: the outside world, the trace of effects so far, and the process-wide
  \<^verbatim>\<open>userCache\<close>. A cached value is what \<^verbatim>\<open>migrateUser\<close> returns: an identifier or
  \<^verbatim>\<open>null\<close> (\<open>None\<close>).
\<close>

record 'w state =
  world :: 'w
  trace :: "event list"
  userCache :: "string \<rightharpoonup> ident option"

type_synonym 'w server = "request \<Rightarrow> 'w \<Rightarrow> outcome \<times> 'w"

section \<open>Helper functions\<close>

definition createZendeskAuth :: "string \<Rightarrow> string \<Rightarrow> auth" where
  "createZendeskAuth em tok = \<lparr>username = em @ ''/token'', password = tok\<rparr>"

definition sleep :: "js_num \<Rightarrow> 'w state \<Rightarrow> 'w state" where
  "sleep ms s = s\<lparr>trace := trace s @ [Sleep ms]\<rparr>"

definition console_log :: "string \<Rightarrow> 'w state \<Rightarrow> 'w state" where
  "console_log msg s = s\<lparr>trace := trace s @ [ConsoleLog msg]\<rparr>"

definition console_error :: "string \<Rightarrow> string \<Rightarrow> 'w state \<Rightarrow> 'w state" where
  "console_error label msg s = s\<lparr>trace := trace s @ [ConsoleError label msg]\<rparr>"

definition axios :: "'w server \<Rightarrow> request \<Rightarrow> 'w state \<Rightarrow> outcome \<times> 'w state" where
  "axios srv r s =
     (case srv r (world s) of
        (out, w) \<Rightarrow> (out, s\<lparr>world := w, trace := trace s @ [Http r out]\<rparr>))"

subsection \<open>Numbers and strings of JavaScript\<close>

definition digit_char :: "nat \<Rightarrow> char" where
  "digit_char d = char_of (48 + d)"

function show_nat :: "nat \<Rightarrow> string" where
  "show_nat n = (if n < 10 then [digit_char n] else show_nat (n div 10) @ [digit_char (n mod 10)])"
  by pat_completeness auto
termination
  by (relation "measure (\<lambda>n. n)") auto

declare show_nat.simps [simp del]

definition show_num :: "js_num \<Rightarrow> string" where
  "show_num x =
     (case x of
        NaN \<Rightarrow> ''NaN''
      | Num i \<Rightarrow> (if i < 0 then ''-'' @ show_nat (nat (- i)) else show_nat (nat i)))"

definition num_times :: "js_num \<Rightarrow> int \<Rightarrow> js_num" where
  "num_times x k = (case x of NaN \<Rightarrow> NaN | Num i \<Rightarrow> Num (i * k))"

text \<open>
  The ASCII white space that \<^verbatim>\<open>parseInt\<close> skips. JavaScript also skips the Unicode
  white space (U+00A0 and others), which is not modelled.
\<close>

definition isWhiteSpace :: "char \<Rightarrow> bool" where
  "isWhiteSpace c = (c \<in> set [CHR '' '', CHR 0x09, CHR 0x0A, CHR 0x0B, CHR 0x0C, CHR 0x0D])"

definition digit_of :: "nat \<Rightarrow> char \<Rightarrow> nat option" where
  "digit_of radix c =
     (let n = (of_char c :: nat);
          v = (if 48 \<le> n \<and> n \<le> 57 then Some (n - 48)
               else if 97 \<le> n \<and> n \<le> 122 then Some (n - 87)
               else if 65 \<le> n \<and> n \<le> 90 then Some (n - 55)
               else None)
      in case v of
           None \<Rightarrow> None
         | Some d \<Rightarrow> (if d < radix then Some d else None))"

fun parseDigits :: "nat \<Rightarrow> nat option \<Rightarrow> string \<Rightarrow> nat option" where
  "parseDigits radix acc [] = acc"
| "parseDigits radix acc (c # cs) =
     (case digit_of radix c of
        None \<Rightarrow> acc
      | Some d \<Rightarrow>
          parseDigits radix (Some ((case acc of None \<Rightarrow> 0 | Some a \<Rightarrow> a) * radix + d)) cs)"

text \<open>
  \<^verbatim>\<open>parseInt(string)\<close> with no radix: leading white space is skipped, then a sign, then
  a \<^verbatim>\<open>0x\<close> prefix selects radix 16; the longest prefix of digits is the value, and
  there being none gives \<^verbatim>\<open>NaN\<close>. The result is the mathematical integer (the
  rounding of a double beyond \<open>2^53\<close> is not modelled).
\<close>

definition parseInt :: "string \<Rightarrow> js_num" where
  "parseInt str =
     (let s0 = dropWhile isWhiteSpace str;
          sgn = (case s0 of c # _ \<Rightarrow> (if c = CHR ''-'' then (- 1 :: int) else 1) | [] \<Rightarrow> 1);
          s1 = (case s0 of c # r \<Rightarrow> (if c = CHR ''-'' \<or> c = CHR ''+'' then r else s0) | [] \<Rightarrow> s0);
          hex = (case s1 of
                   a # b # _ \<Rightarrow> a = CHR ''0'' \<and> (b = CHR ''x'' \<or> b = CHR ''X'')
                 | _ \<Rightarrow> False);
          radix = (if hex then 16 else 10);
          s2 = (if hex then drop 2 s1 else s1)
      in case parseDigits radix None s2 of
           None \<Rightarrow> NaN
         | Some n \<Rightarrow> Num (sgn * int n))"

subsection \<open>The retry policy\<close>

text \<open>
  The response of an error with \<^verbatim>\<open>error.response?.status === 429\<close>, if it is one.
\<close>

definition rate_limit_of :: "js_error \<Rightarrow> response option" where
  "rate_limit_of e =
     (case err_response e of
        None \<Rightarrow> None
      | Some r \<Rightarrow> (if resp_status r = 429 then Some r else None))"

text \<open>\<^verbatim>\<open>parseInt(error.response.headers['retry-after'] || '60')\<close>; the empty string is falsy.\<close>

definition retryAfter_of :: "response \<Rightarrow> js_num" where
  "retryAfter_of r =
     parseInt (case map_of (resp_headers r) ''retry-after'' of
                 None \<Rightarrow> ''60''
               | Some v \<Rightarrow> (if v = [] then ''60'' else v))"

text \<open>
  The \<^verbatim>\<open>for\<close> loop of \<^verbatim>\<open>retryRequest\<close>, from the value of \<^verbatim>\<open>attempt\<close> on. The
  result is \<open>Inl error\<close> when the function throws, \<open>Inr (Some r)\<close> when it returns the
  response, and \<open>Inr None\<close> when the loop ends and the function returns
  \<^verbatim>\<open>undefined\<close>. The \<^verbatim>\<open>continue\<close> of the rate-limit branch runs the loop's
  \<^verbatim>\<open>attempt++\<close>, as every \<^verbatim>\<open>continue\<close> in a \<^verbatim>\<open>for\<close> loop does.
\<close>

function retry_loop ::
  "('w state \<Rightarrow> outcome \<times> 'w state) \<Rightarrow> nat \<Rightarrow> nat \<Rightarrow> 'w state
     \<Rightarrow> (js_error + response option) \<times> 'w state" where
  "retry_loop requestFunc maxRetries attempt s =
     (if attempt \<le> maxRetries then
        (case requestFunc s of
           (Resolved r, s1) \<Rightarrow> (Inr (Some r), s1)
         | (Rejected error, s1) \<Rightarrow>
             (case rate_limit_of error of
                Some limited \<Rightarrow>
                  (let retryAfter = retryAfter_of limited;
                       s2 = console_log (''Rate limited. Waiting '' @ show_num retryAfter @ ''s...'') s1;
                       s3 = sleep (num_times retryAfter 1000) s2
                   in retry_loop requestFunc maxRetries (attempt + 1) s3)
              | None \<Rightarrow>
                  (if attempt = maxRetries then (Inl error, s1)
                   else retry_loop requestFunc maxRetries (attempt + 1)
                          (sleep (Num (2 ^ attempt * 1000)) s1))))
      else (Inr None, s))"
  by pat_completeness auto
termination
  by (relation "measure (\<lambda>(requestFunc, maxRetries, attempt, s). maxRetries + 1 - attempt)") auto

declare retry_loop.simps [simp del]

text \<open>
  \<^verbatim>\<open>retryRequest(requestFunc, maxRetries = 3)\<close>: the loop from \<^verbatim>\<open>attempt = 1\<close>. Every
  caller in the server leaves \<^verbatim>\<open>maxRetries\<close> out, so the callers below pass 3. (The
  spec calls the function \<^verbatim>\<open>executeWithRetry\<close>, \<^verbatim>\<open>migrateUser\<close>
  \<^verbatim>\<open>resolveUser\<close> and \<^verbatim>\<open>migrateComments\<close> \<^verbatim>\<open>replicateComments\<close>.)
\<close>

definition retryRequest ::
  "('w state \<Rightarrow> outcome \<times> 'w state) \<Rightarrow> nat \<Rightarrow> 'w state
     \<Rightarrow> (js_error + response option) \<times> 'w state" where
  "retryRequest requestFunc maxRetries = retry_loop requestFunc maxRetries 1"

section \<open>Requests\<close>

definition hex_digit :: "nat \<Rightarrow> char" where
  "hex_digit d = (if d < 10 then char_of (48 + d) else char_of (55 + d))"

definition uri_unreserved :: "char \<Rightarrow> bool" where
  "uri_unreserved c =
     (let n = (of_char c :: nat)
      in (65 \<le> n \<and> n \<le> 90) \<or> (97 \<le> n \<and> n \<le> 122) \<or> (48 \<le> n \<and> n \<le> 57) \<or>
         c \<in> set [CHR ''-'', CHR ''_'', CHR ''.'', CHR ''!'', CHR ''~'', CHR ''*'',
                    CHR 0x27, CHR ''('', CHR '')''])"

text \<open>\<^verbatim>\<open>encodeURIComponent\<close> on a byte string: every other byte becomes \<^verbatim>\<open>%XX\<close>.\<close>

definition encodeURIComponent :: "string \<Rightarrow> string" where
  "encodeURIComponent str =
     concat (map (\<lambda>c. if uri_unreserved c then [c]
                       else [CHR ''%'', hex_digit (of_char c div 16), hex_digit (of_char c mod 16)])
                 str)"

definition base_url :: "credentials \<Rightarrow> string" where
  "base_url account = ''https://'' @ subdomain account @ ''.zendesk.com''"

definition ticketRequest :: "credentials \<Rightarrow> ident \<Rightarrow> request" where
  "ticketRequest source ticketId =
     \<lparr>req_method = ''GET'',
      req_url = base_url source @ ''/api/v2/tickets/'' @ show_nat ticketId @ ''.json'',
      req_auth = createZendeskAuth (email source) (token source),
      req_data = NoBody, req_headers = []\<rparr>"

definition createTicketRequest :: "credentials \<Rightarrow> ticket_draft \<Rightarrow> request" where
  "createTicketRequest target ticketData =
     \<lparr>req_method = ''POST'',
      req_url = base_url target @ ''/api/v2/tickets.json'',
      req_auth = createZendeskAuth (email target) (token target),
      req_data = TicketBody ticketData, req_headers = []\<rparr>"

definition userRequest :: "credentials \<Rightarrow> ident \<Rightarrow> request" where
  "userRequest source userId =
     \<lparr>req_method = ''GET'',
      req_url = base_url source @ ''/api/v2/users/'' @ show_nat userId @ ''.json'',
      req_auth = createZendeskAuth (email source) (token source),
      req_data = NoBody, req_headers = []\<rparr>"

definition searchRequest :: "credentials \<Rightarrow> user \<Rightarrow> request" where
  "searchRequest target u =
     \<lparr>req_method = ''GET'',
      req_url = base_url target @ ''/api/v2/users/search.json?query='' @
                  encodeURIComponent (user_email u),
      req_auth = createZendeskAuth (email target) (token target),
      req_data = NoBody, req_headers = []\<rparr>"

text \<open>The user object of the creation call, with the role downgrade of the source.\<close>

definition newUserData :: "user \<Rightarrow> new_user" where
  "newUserData u =
     \<lparr>new_name = user_name u,
      new_email = user_email u,
      new_role = (if user_role u = ''admin'' then ''agent'' else user_role u),
      new_verified = True\<rparr>"

definition createUserRequest :: "credentials \<Rightarrow> user \<Rightarrow> request" where
  "createUserRequest target u =
     \<lparr>req_method = ''POST'',
      req_url = base_url target @ ''/api/v2/users.json'',
      req_auth = createZendeskAuth (email target) (token target),
      req_data = UserBody (newUserData u), req_headers = []\<rparr>"

definition commentsRequest :: "credentials \<Rightarrow> ident \<Rightarrow> request" where
  "commentsRequest source sourceTicketId =
     \<lparr>req_method = ''GET'',
      req_url = base_url source @ ''/api/v2/tickets/'' @ show_nat sourceTicketId @
                  ''/comments.json'',
      req_auth = createZendeskAuth (email source) (token source),
      req_data = NoBody, req_headers = []\<rparr>"

definition appendRequest :: "credentials \<Rightarrow> ident \<Rightarrow> comment \<Rightarrow> request" where
  "appendRequest target targetTicketId c =
     \<lparr>req_method = ''PUT'',
      req_url = base_url target @ ''/api/v2/tickets/'' @ show_nat targetTicketId @ ''.json'',
      req_auth = createZendeskAuth (email target) (token target),
      req_data = CommentBody (comment_body c) (comment_public c), req_headers = []\<rparr>"

subsection \<open>Reading a response\<close>

text \<open>
  \<^verbatim>\<open>retryRequest\<close> can return \<^verbatim>\<open>undefined\<close>; reading \<^verbatim>\<open>.data\<close> of it throws.
  A property the payload does not have is \<^verbatim>\<open>undefined\<close> (\<open>None\<close>).
\<close>

definition typeError :: "string \<Rightarrow> js_error" where
  "typeError prop =
     \<lparr>err_message = ''Cannot read properties of undefined (reading '' @ [CHR 0x27] @ prop @
                      [CHR 0x27] @ '')'',
      err_response = None\<rparr>"

definition data_of :: "response option \<Rightarrow> js_error + payload" where
  "data_of r = (case r of None \<Rightarrow> Inl (typeError ''data'') | Some x \<Rightarrow> Inr (resp_data x))"

definition payload_ticket :: "payload \<Rightarrow> ticket option" where
  "payload_ticket d = (case d of TicketData t \<Rightarrow> Some t | _ \<Rightarrow> None)"

definition payload_user :: "payload \<Rightarrow> user option" where
  "payload_user d = (case d of UserData u \<Rightarrow> Some u | _ \<Rightarrow> None)"

text \<open>\<^verbatim>\<open>data.users\<close> when \<^verbatim>\<open>data.users?.length > 0\<close>, the empty list otherwise.\<close>

definition payload_users :: "payload \<Rightarrow> user list" where
  "payload_users d = (case d of UsersData us \<Rightarrow> us | _ \<Rightarrow> [])"

text \<open>\<^verbatim>\<open>data.comments || []\<close>\<close>

definition payload_comments :: "payload \<Rightarrow> comment list" where
  "payload_comments d = (case d of CommentsData cs \<Rightarrow> cs | _ \<Rightarrow> [])"

section \<open>The user cache and \<^verbatim>\<open>migrateUser\<close>\<close>

definition cacheKey :: "ident \<Rightarrow> credentials \<Rightarrow> credentials \<Rightarrow> string" where
  "cacheKey userId source target =
     show_nat userId @ ''-'' @ subdomain source @ ''-'' @ subdomain target"

text \<open>
  The two request functions that read \<^verbatim>\<open>user\<close>: when \<^verbatim>\<open>user\<close> is
  \<^verbatim>\<open>undefined\<close> the arrow function throws before it calls axios, inside the
  \<^verbatim>\<open>try\<close> of \<^verbatim>\<open>retryRequest\<close>.
\<close>

definition searchFunc :: "'w server \<Rightarrow> credentials \<Rightarrow> user option \<Rightarrow> 'w state \<Rightarrow> outcome \<times> 'w state" where
  "searchFunc srv target u s =
     (case u of
        None \<Rightarrow> (Rejected (typeError ''email''), s)
      | Some x \<Rightarrow> axios srv (searchRequest target x) s)"

definition createFunc :: "'w server \<Rightarrow> credentials \<Rightarrow> user option \<Rightarrow> 'w state \<Rightarrow> outcome \<times> 'w state" where
  "createFunc srv target u s =
     (case u of
        None \<Rightarrow> (Rejected (typeError ''name''), s)
      | Some x \<Rightarrow> axios srv (createUserRequest target x) s)"

text \<open>
  The body of the \<^verbatim>\<open>try\<close> block of \<^verbatim>\<open>migrateUser\<close>; \<open>Inl\<close> is a throw. The
  last \<^verbatim>\<open>console.log\<close> reads \<^verbatim>\<open>user.email\<close> after the cache is written; with
  \<^verbatim>\<open>user\<close> undefined it would throw there, a path that \<open>retry_create_None\<close> below
  shows is never taken.
\<close>

definition migrateUser_try ::
  "'w server \<Rightarrow> ident \<Rightarrow> credentials \<Rightarrow> credentials \<Rightarrow> 'w state
     \<Rightarrow> (js_error + ident option) \<times> 'w state" where
  "migrateUser_try srv userId source target s =
     (case retryRequest (axios srv (userRequest source userId)) 3 s of
        (Inl e, s1) \<Rightarrow> (Inl e, s1)
      | (Inr userResponse, s1) \<Rightarrow>
          (case data_of userResponse of
             Inl e \<Rightarrow> (Inl e, s1)
           | Inr userData \<Rightarrow>
               (let u = payload_user userData
                in case retryRequest (searchFunc srv target u) 3 s1 of
                     (Inl e, s2) \<Rightarrow> (Inl e, s2)
                   | (Inr searchResponse, s2) \<Rightarrow>
                       (case data_of searchResponse of
                          Inl e \<Rightarrow> (Inl e, s2)
                        | Inr searchData \<Rightarrow>
                            (case payload_users searchData of
                               existing # _ \<Rightarrow>
                                 (Inr (user_id existing),
                                  s2\<lparr>userCache := (userCache s2)
                                        (cacheKey userId source target \<mapsto> user_id existing)\<rparr>)
                             | [] \<Rightarrow>
                                 (case retryRequest (createFunc srv target u) 3 s2 of
                                    (Inl e, s3) \<Rightarrow> (Inl e, s3)
                                  | (Inr createResponse, s3) \<Rightarrow>
                                      (case data_of createResponse of
                                         Inl e \<Rightarrow> (Inl e, s3)
                                       | Inr createData \<Rightarrow>
                                           (case payload_user createData of
                                              None \<Rightarrow> (Inl (typeError ''id''), s3)
                                            | Some created \<Rightarrow>
                                                (let s4 = s3\<lparr>userCache := (userCache s3)
                                                            (cacheKey userId source target \<mapsto>
                                                               user_id created)\<rparr>
                                                 in case u of
                                                      None \<Rightarrow> (Inl (typeError ''email''), s4)
                                                    | Some x \<Rightarrow>
                                                        (Inr (user_id created),
                                                         console_log
                                                           (''Created user: '' @ user_email x)
                                                           s4))))))))))"

text \<open>
  \<^verbatim>\<open>migrateUser\<close>, run from the cache check to its \<^verbatim>\<open>return\<close> with no other call
  in between. (In the server the function awaits three remote calls between
  \<^verbatim>\<open>userCache.has\<close> and \<^verbatim>\<open>userCache.set\<close>; what a second call does that starts
  during one of them is not modelled.)
\<close>

definition migrateUser ::
  "'w server \<Rightarrow> ident \<Rightarrow> credentials \<Rightarrow> credentials \<Rightarrow> 'w state \<Rightarrow> ident option \<times> 'w state" where
  "migrateUser srv userId source target s =
     (case userCache s (cacheKey userId source target) of
        Some cached \<Rightarrow> (cached, s)
      | None \<Rightarrow>
          (case migrateUser_try srv userId source target s of
             (Inr newId, s1) \<Rightarrow> (newId, s1)
           | (Inl error, s1) \<Rightarrow>
               (None,
                console_error (''Failed to migrate user '' @ show_nat userId @ '':'')
                  (err_message error) s1)))"

text \<open>The property of the cache that no stored value is \<^verbatim>\<open>null\<close>.\<close>

definition cache_inv :: "(string \<rightharpoonup> ident option) \<Rightarrow> bool" where
  "cache_inv cache = (\<forall>k. cache k \<noteq> Some None)"

text \<open>
  An answer holds its identifiers when every user in it has an \<^verbatim>\<open>id\<close>, and a service
  answers with identifiers when every answer it resolves with does.
\<close>

definition has_ids :: "payload \<Rightarrow> bool" where
  "has_ids d =
     (case d of
        UserData u \<Rightarrow> user_id u \<noteq> None
      | UsersData us \<Rightarrow> list_all (\<lambda>u. user_id u \<noteq> None) us
      | _ \<Rightarrow> True)"

definition answers_with_ids :: "'w server \<Rightarrow> bool" where
  "answers_with_ids srv =
     (\<forall>r w resp w'. srv r w = (Resolved resp, w') \<longrightarrow> has_ids (resp_data resp))"

section \<open>\<^verbatim>\<open>migrateComments\<close>\<close>

text \<open>\<^verbatim>\<open>comment.via?.channel === 'api'\<close>\<close>

definition is_api_comment :: "comment \<Rightarrow> bool" where
  "is_api_comment c = (case comment_via c of None \<Rightarrow> False | Some v \<Rightarrow> via_channel v = ''api'')"

text \<open>
  The \<^verbatim>\<open>for ... of\<close> loop over the comments. The inner \<^verbatim>\<open>try\<close> catches what
  \<^verbatim>\<open>retryRequest\<close> throws, so the loop itself never throws.
\<close>

fun comments_loop ::
  "'w server \<Rightarrow> ident \<Rightarrow> credentials \<Rightarrow> comment list \<Rightarrow> 'w state \<Rightarrow> 'w state" where
  "comments_loop srv targetTicketId target [] s = s"
| "comments_loop srv targetTicketId target (c # rest) s =
     (if is_api_comment c then comments_loop srv targetTicketId target rest s
      else
        (case retryRequest (axios srv (appendRequest target targetTicketId c)) 3 s of
           (Inr _, s1) \<Rightarrow> comments_loop srv targetTicketId target rest (sleep (Num 300) s1)
         | (Inl error, s1) \<Rightarrow>
             comments_loop srv targetTicketId target rest
               (console_error ''Failed to migrate comment:'' (err_message error) s1)))"

text \<open>What a JavaScript function hands back to its caller, as far as this code goes.\<close>

datatype js_value = JUndefined | JNumber int

text \<open>
  \<^verbatim>\<open>migrateComments\<close> has no \<^verbatim>\<open>return\<close> statement: on every path the promise
  resolves to \<^verbatim>\<open>undefined\<close>.
\<close>

definition migrateComments ::
  "'w server \<Rightarrow> ident \<Rightarrow> ident \<Rightarrow> credentials \<Rightarrow> credentials \<Rightarrow> 'w state \<Rightarrow> js_value \<times> 'w state" where
  "migrateComments srv sourceTicketId targetTicketId source target s =
     (case retryRequest (axios srv (commentsRequest source sourceTicketId)) 3 s of
        (Inl error, s1) \<Rightarrow>
          (JUndefined, console_error ''Failed to migrate comments:'' (err_message error) s1)
      | (Inr commentsResponse, s1) \<Rightarrow>
          (case data_of commentsResponse of
             Inl error \<Rightarrow>
               (JUndefined, console_error ''Failed to migrate comments:'' (err_message error) s1)
           | Inr commentsData \<Rightarrow>
               (let comments = payload_comments commentsData;
                    s2 = comments_loop srv targetTicketId target comments s1
                in (JUndefined,
                    console_log (''Migrated '' @ show_nat (length comments) @ '' comments'') s2))))"

section \<open>The endpoints\<close>

text \<open>What an endpoint answers: the HTTP status and the JSON object, by its shape.\<close>

datatype reply_json =
    MissingCredentials
  | InvalidPath
  | ProxyData payload
  | ProxyError string "payload option"
  | DryRun ident string
  | Migrated ident ident string
  | MigrateFailed string ident

record reply =
  reply_status :: nat
  reply_body :: reply_json

text \<open>
  \<^verbatim>\<open>res.json({success: true, dryRun: true, sourceTicket: {id, subject}, message})\<close> is
  \<open>DryRun id subject\<close>; \<^verbatim>\<open>res.json({success: true, sourceTicketId, targetTicketId,
  subject})\<close> is \<open>Migrated\<close>; \<^verbatim>\<open>res.status(500).json({success: false, error,
  ticketId})\<close> is \<open>MigrateFailed\<close>.
\<close>

record migrate_options =
  opt_migrateUsers :: bool
  opt_dryRun :: bool
  opt_migrateComments :: bool

definition draft_of :: "ticket \<Rightarrow> ident option \<Rightarrow> ticket_draft" where
  "draft_of sourceTicket requesterId =
     \<lparr>draft_subject = ticket_subject sourceTicket,
      draft_description = ticket_description sourceTicket,
      draft_status = ticket_status sourceTicket,
      draft_priority = ticket_priority sourceTicket,
      draft_type = ticket_type sourceTicket,
      draft_tags = (case ticket_tags sourceTicket of None \<Rightarrow> [] | Some ts \<Rightarrow> ts),
      draft_requester_id =
        (case requesterId of
           None \<Rightarrow> None
         | Some i \<Rightarrow> (if i = 0 then None else Some i))\<rparr>"

text \<open>The body of the \<^verbatim>\<open>try\<close> block of \<^verbatim>\<open>POST /api/migrate-ticket\<close>.\<close>

definition migrateTicket_try ::
  "'w server \<Rightarrow> ident \<Rightarrow> credentials \<Rightarrow> credentials \<Rightarrow> migrate_options \<Rightarrow> 'w state
     \<Rightarrow> (js_error + reply) \<times> 'w state" where
  "migrateTicket_try srv ticketId source target options s =
     (case retryRequest (axios srv (ticketRequest source ticketId)) 3
             (console_log (''Migrating ticket #'' @ show_nat ticketId) s) of
        (Inl e, s1) \<Rightarrow> (Inl e, s1)
      | (Inr ticketResponse, s1) \<Rightarrow>
          (case data_of ticketResponse of
             Inl e \<Rightarrow> (Inl e, s1)
           | Inr ticketData \<Rightarrow>
               (case payload_ticket ticketData of
                  None \<Rightarrow>
                    (Inl (typeError (if opt_migrateUsers options then ''requester_id''
                                     else ''subject'')), s1)
                | Some sourceTicket \<Rightarrow>
                    (case (if opt_migrateUsers options
                           then migrateUser srv (ticket_requester_id sourceTicket) source target s1
                           else (None, s1)) of
                       (requesterId, s2) \<Rightarrow>
                         (if opt_dryRun options then
                            (Inr \<lparr>reply_status = 200,
                                  reply_body = DryRun ticketId (ticket_subject sourceTicket)\<rparr>, s2)
                          else
                            (case retryRequest
                                    (axios srv (createTicketRequest target
                                                  (draft_of sourceTicket requesterId))) 3 s2 of
                               (Inl e, s3) \<Rightarrow> (Inl e, s3)
                             | (Inr createResponse, s3) \<Rightarrow>
                                 (case data_of createResponse of
                                    Inl e \<Rightarrow> (Inl e, s3)
                                  | Inr createData \<Rightarrow>
                                      (case payload_ticket createData of
                                         None \<Rightarrow> (Inl (typeError ''id''), s3)
                                       | Some newTicket \<Rightarrow>
                                           (Inr \<lparr>reply_status = 200,
                                                 reply_body =
                                                   Migrated ticketId (ticket_id newTicket)
                                                     (ticket_subject sourceTicket)\<rparr>,
                                            (if opt_migrateComments options
                                             then snd (migrateComments srv ticketId
                                                         (ticket_id newTicket) source target s3)
                                             else s3))))))))))"

definition migrateTicket ::
  "'w server \<Rightarrow> ident \<Rightarrow> credentials \<Rightarrow> credentials \<Rightarrow> migrate_options \<Rightarrow> 'w state
     \<Rightarrow> reply \<times> 'w state" where
  "migrateTicket srv ticketId source target options s =
     (case migrateTicket_try srv ticketId source target options s of
        (Inr r, s1) \<Rightarrow> (r, s1)
      | (Inl error, s1) \<Rightarrow>
          (\<lparr>reply_status = 500, reply_body = MigrateFailed (err_message error) ticketId\<rparr>,
           console_error ''Failed to migrate ticket:'' (err_message error) s1))"

subsection \<open>\<^verbatim>\<open>POST /proxy\<close>\<close>

record proxy_body =
  p_method :: "string option"
  p_url :: "string option"
  p_data :: body
  p_subdomain :: "string option"
  p_email :: "string option"
  p_token :: "string option"

text \<open>\<^verbatim>\<open>!x\<close> for a string that may be missing: missing and the empty string are falsy.\<close>

definition falsy :: "string option \<Rightarrow> bool" where
  "falsy v = (case v of None \<Rightarrow> True | Some x \<Rightarrow> x = [])"

text \<open>
  \<^verbatim>\<open>v || d\<close>. The request of the proxy is built after the guard on the credentials,
  where each of them is a string that is not empty: there \<open>or_else v []\<close> is that string.
\<close>

definition or_else :: "string option \<Rightarrow> string \<Rightarrow> string" where
  "or_else v d = (if falsy v then d else (case v of None \<Rightarrow> d | Some x \<Rightarrow> x))"

definition proxyRequest :: "proxy_body \<Rightarrow> string \<Rightarrow> request" where
  "proxyRequest b url =
     \<lparr>req_method = or_else (p_method b) ''GET'',
      req_url = ''https://'' @ or_else (p_subdomain b) [] @ ''.zendesk.com'' @ url,
      req_auth = createZendeskAuth (or_else (p_email b) []) (or_else (p_token b) []),
      req_data = p_data b,
      req_headers = [(''Content-Type'', ''application/json'')]\<rparr>"

text \<open>The \<^verbatim>\<open>catch\<close> of the proxy: \<^verbatim>\<open>error.response?.status || 500\<close>.\<close>

definition proxy_catch :: "js_error \<Rightarrow> 'w state \<Rightarrow> reply \<times> 'w state" where
  "proxy_catch error s =
     (\<lparr>reply_status =
          (case err_response error of
             None \<Rightarrow> 500
           | Some r \<Rightarrow> (if resp_status r = 0 then 500 else resp_status r)),
       reply_body = ProxyError (err_message error) (map_option resp_data (err_response error))\<rparr>,
      console_error ''Proxy error:'' (err_message error) s)"

definition proxy :: "'w server \<Rightarrow> proxy_body \<Rightarrow> 'w state \<Rightarrow> reply \<times> 'w state" where
  "proxy srv b s =
     (if falsy (p_subdomain b) \<or> falsy (p_email b) \<or> falsy (p_token b) then
        (\<lparr>reply_status = 400, reply_body = MissingCredentials\<rparr>, s)
      else
        (case p_url b of
           None \<Rightarrow> proxy_catch (typeError ''startsWith'') s
         | Some url \<Rightarrow>
             (if \<not> prefix ''/api/v2/'' url then
                (\<lparr>reply_status = 400, reply_body = InvalidPath\<rparr>, s)
              else
                (case retryRequest (axios srv (proxyRequest b url)) 3 s of
                   (Inl error, s1) \<Rightarrow> proxy_catch error s1
                 | (Inr response, s1) \<Rightarrow>
                     (case data_of response of
                        Inl error \<Rightarrow> proxy_catch error s1
                      | Inr d \<Rightarrow> (\<lparr>reply_status = 200, reply_body = ProxyData d\<rparr>, s1))))))"

section \<open>Observations on a trace\<close>

text \<open>The requests of a trace and the timers of a trace, in order.\<close>

fun requests_of :: "event list \<Rightarrow> request list" where
  "requests_of [] = []"
| "requests_of (Http r out # es) = r # requests_of es"
| "requests_of (e # es) = requests_of es"

fun sleeps_of :: "event list \<Rightarrow> js_num list" where
  "sleeps_of [] = []"
| "sleeps_of (Sleep ms # es) = ms # sleeps_of es"
| "sleeps_of (e # es) = sleeps_of es"

text \<open>
  A write to an account is a request whose method is not \<^verbatim>\<open>GET\<close>: the server creates
  with \<^verbatim>\<open>POST\<close> and updates with \<^verbatim>\<open>PUT\<close>.
\<close>

definition writes_of :: "event list \<Rightarrow> request list" where
  "writes_of es = filter (\<lambda>r. req_method r \<noteq> ''GET'') (requests_of es)"

subsection \<open>A scripted remote service\<close>

text \<open>
  For concrete scenarios the world is the list of outcomes still to come; the service
  answers each request with the next one, and with a network error when none is left.
\<close>

definition networkError :: js_error where
  "networkError = \<lparr>err_message = ''Network Error'', err_response = None\<rparr>"

definition scripted :: "outcome list server" where
  "scripted r w = (case w of [] \<Rightarrow> (Rejected networkError, []) | out # rest \<Rightarrow> (out, rest))"

definition init :: "'w \<Rightarrow> 'w state" where
  "init w = \<lparr>world = w, trace = [], userCache = Map.empty\<rparr>"

definition ok :: "payload \<Rightarrow> outcome" where
  "ok d = Resolved \<lparr>resp_status = 200, resp_headers = [], resp_data = d\<rparr>"

definition failure :: "nat \<Rightarrow> outcome" where
  "failure code =
     Rejected \<lparr>err_message = ''Request failed with status code '' @ show_nat code,
               err_response = Some \<lparr>resp_status = code, resp_headers = [],
                                    resp_data = RawData []\<rparr>\<rparr>"

definition rate_limited :: "string option \<Rightarrow> outcome" where
  "rate_limited retry_after =
     Rejected \<lparr>err_message = ''Request failed with status code 429'',
               err_response = Some \<lparr>resp_status = 429,
                                    resp_headers = (case retry_after of None \<Rightarrow> [] | Some v \<Rightarrow> [(''retry-after'', v)]),
                                    resp_data = RawData []\<rparr>\<rparr>"

subsection \<open>Concrete scenarios\<close>

text \<open>The accounts, tickets, users, comments and scripts of the concrete runs below.\<close>

definition pingRequest :: request where
  "pingRequest =
     \<lparr>req_method = ''GET'', req_url = ''https://acme.zendesk.com/api/v2/users/me.json'',
      req_auth = createZendeskAuth ''a@acme.test'' ''secret'', req_data = NoBody, req_headers = []\<rparr>"

definition exhaustion_script :: "outcome list" where
  "exhaustion_script = [failure 500, failure 503, failure 502, ok (RawData ''late'')]"

definition rate_limit_script :: "outcome list" where
  "rate_limit_script =
     [rate_limited (Some ''2''), rate_limited None, rate_limited (Some ''1''), ok (RawData ''done'')]"

definition recovery_script :: "outcome list" where
  "recovery_script = [rate_limited (Some ''2''), rate_limited (Some ''1''), failure 500, ok (RawData ''done'')]"

definition proxy_bad_path :: proxy_body where
  "proxy_bad_path =
     \<lparr>p_method = Some ''GET'', p_url = Some ''/admin/api/v2/users.json'', p_data = NoBody,
      p_subdomain = Some ''acme'', p_email = Some ''a@acme.test'', p_token = Some ''secret''\<rparr>"

definition proxy_no_token :: proxy_body where
  "proxy_no_token =
     \<lparr>p_method = Some ''GET'', p_url = Some ''/api/v2/users.json'', p_data = NoBody,
      p_subdomain = Some ''acme'', p_email = Some ''a@acme.test'', p_token = None\<rparr>"

definition acme :: credentials where
  "acme = \<lparr>subdomain = ''acme'', email = ''a@acme.test'', token = ''secret''\<rparr>"

definition globex :: credentials where
  "globex = \<lparr>subdomain = ''globex'', email = ''g@globex.test'', token = ''hunter2''\<rparr>"

definition plain_comment :: "string \<Rightarrow> comment" where
  "plain_comment text = \<lparr>comment_body = text, comment_public = True, comment_via = Some \<lparr>via_channel = ''web''\<rparr>\<rparr>"

definition api_comment :: "string \<Rightarrow> comment" where
  "api_comment text = \<lparr>comment_body = text, comment_public = False, comment_via = Some \<lparr>via_channel = ''api''\<rparr>\<rparr>"

definition one_comment_script :: "outcome list" where
  "one_comment_script = [ok (CommentsData [plain_comment ''hello'']), ok (RawData [])]"

definition stateless :: "(request \<Rightarrow> outcome) \<Rightarrow> unit server" where
  "stateless answer r w = (answer r, w)"

definition three_comments :: "comment list" where
  "three_comments = [api_comment ''sync'', plain_comment ''first'', plain_comment ''second'']"

definition comments_service :: "unit server" where
  "comments_service =
     stateless (\<lambda>r. if req_method r = ''GET'' then ok (CommentsData three_comments)
                     else ok (RawData []))"

definition alice :: user where
  "alice = \<lparr>user_id = Some 5, user_name = ''Alice'', user_email = ''alice@acme.test'', user_role = ''admin''\<rparr>"

definition alice_created :: user where
  "alice_created = \<lparr>user_id = Some 77, user_name = ''Alice'', user_email = ''alice@acme.test'', user_role = ''agent''\<rparr>"

definition create_fails_script :: "outcome list" where
  "create_fails_script =
     [ok (UserData alice), ok (UsersData []), failure 500, failure 500, failure 500,
      ok (UserData alice), ok (UsersData []), ok (UserData alice_created)]"

definition user_without_id :: user where
  "user_without_id = \<lparr>user_id = None, user_name = ''Alice'', user_email = ''alice@acme.test'', user_role = ''end-user''\<rparr>"

definition null_id_script :: "outcome list" where
  "null_id_script = [ok (UserData alice), ok (UsersData [user_without_id]), ok (UserData alice_created)]"

definition create_refused_service :: "unit server" where
  "create_refused_service =
     stateless (\<lambda>r. if req_method r = ''POST'' then failure 500
                     else if req_url r = req_url (userRequest acme 5) then ok (UserData alice)
                     else ok (UsersData []))"

definition create_script :: "outcome list" where
  "create_script = [ok (UserData alice), ok (UsersData []), ok (UserData alice_created)]"

definition printer_ticket :: ticket where
  "printer_ticket =
     \<lparr>ticket_id = 7, ticket_subject = ''Printer on fire'', ticket_description = ''It burns'',
      ticket_status = ''open'', ticket_priority = ''urgent'', ticket_type = ''incident'',
      ticket_tags = None, ticket_requester_id = 5\<rparr>"

definition printer_created :: ticket where
  "printer_created =
     \<lparr>ticket_id = 70, ticket_subject = ''Printer on fire'', ticket_description = ''It burns'',
      ticket_status = ''open'', ticket_priority = ''urgent'', ticket_type = ''incident'',
      ticket_tags = Some [], ticket_requester_id = 77\<rparr>"

definition dry_with_users :: migrate_options where
  "dry_with_users = \<lparr>opt_migrateUsers = True, opt_dryRun = True, opt_migrateComments = True\<rparr>"

definition dry_only :: migrate_options where
  "dry_only = \<lparr>opt_migrateUsers = False, opt_dryRun = True, opt_migrateComments = True\<rparr>"

definition dry_run_script :: "outcome list" where
  "dry_run_script =
     [ok (TicketData printer_ticket), ok (UserData alice), ok (UsersData []),
      ok (UserData alice_created)]"

definition migrate_comments_only :: migrate_options where
  "migrate_comments_only =
     \<lparr>opt_migrateUsers = False, opt_dryRun = False, opt_migrateComments = True\<rparr>"

definition comment_fails_script :: "outcome list" where
  "comment_fails_script =
     [ok (TicketData printer_ticket), ok (TicketData printer_created),
      ok (CommentsData [plain_comment ''first'', plain_comment ''second'']),
      failure 500, failure 500, failure 500, ok (RawData [])]"

section \<open>Effects of the helpers\<close>

lemma trace_sleep [simp]: "trace (sleep ms s) = trace s @ [Sleep ms]"
  and cache_sleep [simp]: "userCache (sleep ms s) = userCache s"
  and world_sleep [simp]: "world (sleep ms s) = world s"
  by (simp_all add: sleep_def)

lemma trace_console_log [simp]: "trace (console_log msg s) = trace s @ [ConsoleLog msg]"
  and cache_console_log [simp]: "userCache (console_log msg s) = userCache s"
  and world_console_log [simp]: "world (console_log msg s) = world s"
  by (simp_all add: console_log_def)

lemma trace_console_error [simp]: "trace (console_error l msg s) = trace s @ [ConsoleError l msg]"
  and cache_console_error [simp]: "userCache (console_error l msg s) = userCache s"
  and world_console_error [simp]: "world (console_error l msg s) = world s"
  by (simp_all add: console_error_def)

lemma requests_of_append [simp]: "requests_of (xs @ ys) = requests_of xs @ requests_of ys"
  by (induction xs rule: requests_of.induct) simp_all

lemma axios_effect:
  assumes "axios srv r s = (out, s1)"
  shows "trace s1 = trace s @ [Http r out]" and "userCache s1 = userCache s"
  using assms by (auto simp: axios_def split: prod.splits)

lemma retry_loop_axios_requests:
  "\<exists>k. requests_of (trace (snd (retry_loop (axios srv r) m a s))) = requests_of (trace s) @ replicate k r
       \<and> k \<le> m + 1 - a \<and> (a \<le> m \<longrightarrow> 1 \<le> k)"
proof (induction n \<equiv> "m + 1 - a" arbitrary: a s)
  case 0
  then have "\<not> a \<le> m" by simp
  then show ?case by (subst retry_loop.simps) simp
next
  case (Suc n)
  then have le: "a \<le> m" and n: "n = m + 1 - (a + 1)" by simp_all
  obtain out s1 where ax: "axios srv r s = (out, s1)" by fastforce
  note tr = axios_effect(1)[OF ax]
  show ?case
  proof (cases out)
    case (Resolved resp)
    with ax le have "retry_loop (axios srv r) m a s = (Inr (Some resp), s1)"
      by (subst retry_loop.simps) simp
    with tr le show ?thesis by (intro exI[of _ 1]) simp
  next
    case (Rejected e)
    show ?thesis
    proof (cases "rate_limit_of e")
      case (Some lim)
      define s3 where "s3 = sleep (num_times (retryAfter_of lim) 1000)
          (console_log (''Rate limited. Waiting '' @ show_num (retryAfter_of lim) @ ''s...'') s1)"
      have eq: "retry_loop (axios srv r) m a s = retry_loop (axios srv r) m (a + 1) s3"
        using ax le Rejected Some by (subst retry_loop.simps) (simp add: s3_def Let_def)
      from Suc.hyps(1)[OF n, of s3] obtain k where
        "requests_of (trace (snd (retry_loop (axios srv r) m (a + 1) s3))) = requests_of (trace s3) @ replicate k r"
        "k \<le> m + 1 - (a + 1)" by blast
      with eq tr le show ?thesis
        by (intro exI[of _ "Suc k"]) (simp add: s3_def replicate_append_same)
    next
      case None
      show ?thesis
      proof (cases "a = m")
        case True
        with ax le Rejected None have "retry_loop (axios srv r) m a s = (Inl e, s1)"
          by (subst retry_loop.simps) simp
        with tr le show ?thesis by (intro exI[of _ 1]) simp
      next
        case False
        define s3 where "s3 = sleep (Num (2 ^ a * 1000)) s1"
        have eq: "retry_loop (axios srv r) m a s = retry_loop (axios srv r) m (a + 1) s3"
          using ax le Rejected None False by (subst retry_loop.simps) (simp add: s3_def)
        from Suc.hyps(1)[OF n, of s3] obtain k where
          "requests_of (trace (snd (retry_loop (axios srv r) m (a + 1) s3))) = requests_of (trace s3) @ replicate k r"
          "k \<le> m + 1 - (a + 1)" by blast
        with eq tr le show ?thesis
          by (intro exI[of _ "Suc k"]) (simp add: s3_def replicate_append_same)
      qed
    qed
  qed
qed

lemma retry_loop_done: "\<not> a \<le> m \<Longrightarrow> retry_loop f m a s = (Inr None, s)"
  by (subst retry_loop.simps) simp

lemma retry_loop_resolved:
  "a \<le> m \<Longrightarrow> f s = (Resolved r, s1) \<Longrightarrow> retry_loop f m a s = (Inr (Some r), s1)"
  by (subst retry_loop.simps) simp

lemma retry_loop_limited:
  "a \<le> m \<Longrightarrow> f s = (Rejected e, s1) \<Longrightarrow> rate_limit_of e = Some lim \<Longrightarrow>
   retry_loop f m a s =
     retry_loop f m (a + 1)
       (sleep (num_times (retryAfter_of lim) 1000)
          (console_log (''Rate limited. Waiting '' @ show_num (retryAfter_of lim) @ ''s...'') s1))"
  by (subst retry_loop.simps) (simp add: Let_def)

lemma retry_loop_last:
  "a = m \<Longrightarrow> f s = (Rejected e, s1) \<Longrightarrow> rate_limit_of e = None \<Longrightarrow>
   retry_loop f m a s = (Inl e, s1)"
  by (subst retry_loop.simps) simp

lemma retry_loop_backoff:
  "a < m \<Longrightarrow> f s = (Rejected e, s1) \<Longrightarrow> rate_limit_of e = None \<Longrightarrow>
   retry_loop f m a s = retry_loop f m (a + 1) (sleep (Num (2 ^ a * 1000)) s1)"
  by (subst retry_loop.simps) simp

lemma retry_loop_invariant:
  assumes step: "\<And>s out s1. f s = (out, s1) \<Longrightarrow> R s s1"
    and sl: "\<And>s ms. R s (sleep ms s)"
    and lg: "\<And>s msg. R s (console_log msg s)"
    and refl: "\<And>s. R s s"
    and trans: "\<And>s t u. R s t \<Longrightarrow> R t u \<Longrightarrow> R s u"
  shows "R s (snd (retry_loop f m a s))"
proof (induction n \<equiv> "m + 1 - a" arbitrary: a s)
  case 0
  then have "\<not> a \<le> m" by simp
  then show ?case by (simp add: retry_loop_done refl)
next
  case (Suc n)
  then have le: "a \<le> m" and n: "n = m + 1 - (a + 1)" by simp_all
  obtain out s1 where fs: "f s = (out, s1)" by fastforce
  note r1 = step[OF fs]
  show ?case
  proof (cases out)
    case (Resolved resp)
    with fs le r1 show ?thesis by (simp add: retry_loop_resolved)
  next
    case (Rejected e)
    show ?thesis
    proof (cases "rate_limit_of e")
      case (Some lim)
      let ?s2 = "console_log (''Rate limited. Waiting '' @ show_num (retryAfter_of lim) @ ''s...'') s1"
      let ?s3 = "sleep (num_times (retryAfter_of lim) 1000) ?s2"
      have "R s ?s3" by (rule trans[OF trans[OF r1 lg] sl])
      moreover have "R ?s3 (snd (retry_loop f m (a + 1) ?s3))" by (rule Suc.hyps(1)[OF n])
      ultimately have "R s (snd (retry_loop f m (a + 1) ?s3))" by (rule trans)
      then show ?thesis
        using fs le Rejected Some by (simp add: retry_loop_limited)
    next
      case None
      show ?thesis
      proof (cases "a = m")
        case True
        with fs Rejected None r1 show ?thesis by (simp add: retry_loop_last)
      next
        case False
        let ?s3 = "sleep (Num (2 ^ a * 1000)) s1"
        have "R s ?s3" by (rule trans[OF r1 sl])
        moreover have "R ?s3 (snd (retry_loop f m (a + 1) ?s3))" by (rule Suc.hyps(1)[OF n])
        moreover have "a < m" using le False by simp
        ultimately have "R s (snd (retry_loop f m (a + 1) ?s3))" "a < m" by (blast intro: trans)+
        then show ?thesis
          using fs Rejected None by (simp add: retry_loop_backoff)
      qed
    qed
  qed
qed

lemma retry_axios_cache:
  assumes "retryRequest (axios srv r) m s = (x, s1)"
  shows "userCache s1 = userCache s"
proof -
  have "userCache (snd (retry_loop (axios srv r) m 1 s)) = userCache s"
    by (rule retry_loop_invariant[where R = "\<lambda>s t. userCache t = userCache s"])
       (simp_all add: axios_effect(2))
  with assms show ?thesis by (simp add: retryRequest_def)
qed

lemma writes_of_append [simp]: "writes_of (xs @ ys) = writes_of xs @ writes_of ys"
  by (simp add: writes_of_def)

lemma writes_of_single [simp]:
  "writes_of [Sleep ms] = []" "writes_of [ConsoleLog msg] = []" "writes_of [ConsoleError l msg] = []"
  "writes_of [Http r out] = (if req_method r \<noteq> ''GET'' then [r] else [])"
  by (simp_all add: writes_of_def)

lemma retry_axios_requests:
  assumes "retryRequest (axios srv r) m s = (x, s1)" and "1 \<le> m"
  shows "\<exists>k. 1 \<le> k \<and> k \<le> m \<and> requests_of (trace s1) = requests_of (trace s) @ replicate k r"
  using retry_loop_axios_requests[of srv r m 1 s] assms by (auto simp: retryRequest_def)

lemma retry_get_writes:
  assumes "retryRequest (axios srv r) m s = (x, s1)" and "req_method r = ''GET''"
  shows "writes_of (trace s1) = writes_of (trace s)"
proof -
  have "writes_of (trace (snd (retry_loop (axios srv r) m 1 s))) = writes_of (trace s)"
    by (rule retry_loop_invariant[where R = "\<lambda>s t. writes_of (trace t) = writes_of (trace s)"])
       (simp_all add: axios_effect(1) assms(2))
  with assms show ?thesis by (simp add: retryRequest_def)
qed

lemma retry_put_writes:
  assumes "retryRequest (axios srv r) m s = (x, s1)" and "req_method r \<noteq> ''GET''" and "1 \<le> m"
  shows "\<exists>k. 1 \<le> k \<and> k \<le> m \<and> writes_of (trace s1) = writes_of (trace s) @ replicate k r"
proof -
  from retry_axios_requests[OF assms(1,3)] obtain k where
    k: "1 \<le> k" "k \<le> m" "requests_of (trace s1) = requests_of (trace s) @ replicate k r" by blast
  then have "writes_of (trace s1) = writes_of (trace s) @ replicate k r"
    using assms(2) by (simp add: writes_of_def)
  with k show ?thesis by blast
qed

lemma searchFunc_effect:
  assumes "searchFunc srv target u s = (out, s1)"
  shows "writes_of (trace s1) = writes_of (trace s)" and "userCache s1 = userCache s"
  using assms
  by (auto simp: searchFunc_def searchRequest_def dest: axios_effect split: option.splits)

lemma retry_search:
  assumes "retryRequest (searchFunc srv target u) m s = (x, s1)"
  shows "writes_of (trace s1) = writes_of (trace s)" and "userCache s1 = userCache s"
proof -
  have "writes_of (trace (snd (retry_loop (searchFunc srv target u) m 1 s))) = writes_of (trace s)"
    by (rule retry_loop_invariant[where R = "\<lambda>s t. writes_of (trace t) = writes_of (trace s)"])
       (simp_all add: searchFunc_effect(1))
  with assms show "writes_of (trace s1) = writes_of (trace s)" by (simp add: retryRequest_def)
  have "userCache (snd (retry_loop (searchFunc srv target u) m 1 s)) = userCache s"
    by (rule retry_loop_invariant[where R = "\<lambda>s t. userCache t = userCache s"])
       (simp_all add: searchFunc_effect(2))
  with assms show "userCache s1 = userCache s" by (simp add: retryRequest_def)
qed

lemma createFunc_effect:
  assumes "createFunc srv target u s = (out, s1)"
  shows "userCache s1 = userCache s"
    and "u = None \<Longrightarrow> writes_of (trace s1) = writes_of (trace s)"
  using assms
  by (auto simp: createFunc_def dest: axios_effect split: option.splits)

lemma createFunc_Some: "createFunc srv target (Some u) = axios srv (createUserRequest target u)"
  by (rule ext) (simp add: createFunc_def)

lemma retry_create:
  assumes "retryRequest (createFunc srv target u) 3 s = (x, s1)"
  shows "userCache s1 = userCache s"
    and "\<exists>k\<le>3. writes_of (trace s1) = writes_of (trace s) @
            (case u of None \<Rightarrow> [] | Some v \<Rightarrow> replicate k (createUserRequest target v))"
proof -
  have "userCache (snd (retry_loop (createFunc srv target u) 3 1 s)) = userCache s"
    by (rule retry_loop_invariant[where R = "\<lambda>s t. userCache t = userCache s"])
       (simp_all add: createFunc_effect(1))
  with assms show "userCache s1 = userCache s" by (simp add: retryRequest_def)
  show "\<exists>k\<le>3. writes_of (trace s1) = writes_of (trace s) @
            (case u of None \<Rightarrow> [] | Some v \<Rightarrow> replicate k (createUserRequest target v))"
  proof (cases u)
    case None
    have "writes_of (trace (snd (retry_loop (createFunc srv target u) 3 1 s))) = writes_of (trace s)"
      by (rule retry_loop_invariant[where R = "\<lambda>s t. writes_of (trace t) = writes_of (trace s)"])
         (simp_all add: createFunc_effect(2)[OF _ None])
    with assms None show ?thesis by (auto simp: retryRequest_def intro!: exI[of _ 0])
  next
    case (Some v)
    have "req_method (createUserRequest target v) \<noteq> ''GET''" by (simp add: createUserRequest_def)
    from retry_put_writes[OF assms[unfolded Some createFunc_Some] this] Some show ?thesis by auto
  qed
qed

lemma rate_limit_of_typeError [simp]: "rate_limit_of (typeError prop) = None"
  by (simp add: rate_limit_of_def typeError_def)

lemma retry_create_None:
  assumes "retryRequest (createFunc srv target None) 3 s = (x, s1)"
  shows "\<exists>e. x = Inl e"
proof -
  let ?f = "createFunc srv target None"
  let ?e = "typeError ''name''"
  have f: "?f t = (Rejected ?e, t)" for t by (simp add: createFunc_def)
  have "retry_loop ?f 3 1 s = retry_loop ?f 3 2 (sleep (Num 2000) s)"
    using retry_loop_backoff[of 1 3 ?f s ?e s] f by (simp add: eval_nat_numeral)
  also have "\<dots> = retry_loop ?f 3 3 (sleep (Num 4000) (sleep (Num 2000) s))"
    using retry_loop_backoff[of 2 3 ?f "sleep (Num 2000) s" ?e "sleep (Num 2000) s"] f
    by (simp add: eval_nat_numeral)
  also have "\<dots> = (Inl ?e, sleep (Num 4000) (sleep (Num 2000) s))"
    using retry_loop_last[of 3 3 ?f "sleep (Num 4000) (sleep (Num 2000) s)" ?e] f by simp
  finally show ?thesis using assms by (auto simp: retryRequest_def)
qed

lemma retry_create_cache:
  assumes "retryRequest (createFunc srv target u) 3 s = (x, s1)"
  shows "userCache s1 = userCache s \<and> (u = None \<longrightarrow> (\<exists>e. x = Inl e))"
  using retry_create(1)[OF assms] retry_create_None[of srv target s x s1] assms by blast

lemma migrateUser_try_cache:
  assumes "migrateUser_try srv userId source target s = (res, s')"
  shows "userCache s' =
           (case res of Inl e \<Rightarrow> userCache s
            | Inr i \<Rightarrow> (userCache s)(cacheKey userId source target \<mapsto> i))"
  using assms unfolding migrateUser_try_def Let_def
  by (auto split: prod.splits sum.splits list.splits option.splits
           dest!: retry_axios_cache retry_search(2) retry_create_cache)

lemma migrateUser_try_writes:
  "\<exists>k\<le>3. writes_of (trace (snd (migrateUser_try srv userId source target s))) =
      writes_of (trace s) @
        (case fst (retryRequest (axios srv (userRequest source userId)) 3 s) of
           Inr (Some resp) \<Rightarrow>
             (case payload_user (resp_data resp) of
                Some u \<Rightarrow> replicate k (createUserRequest target u)
              | None \<Rightarrow> [])
         | _ \<Rightarrow> [])"
proof -
  obtain x1 s1 where r1: "retryRequest (axios srv (userRequest source userId)) 3 s = (x1, s1)"
    by fastforce
  have w1: "writes_of (trace s1) = writes_of (trace s)"
    by (rule retry_get_writes[OF r1]) (simp add: userRequest_def)
  show ?thesis
  proof (cases x1)
    case (Inl e)
    with r1 w1 show ?thesis by (auto simp: migrateUser_try_def intro!: exI[of _ 0])
  next
    case (Inr ro)
    show ?thesis
    proof (cases ro)
      case None
      with r1 w1 Inr show ?thesis
        by (auto simp: migrateUser_try_def data_of_def intro!: exI[of _ 0])
    next
      case (Some resp)
      let ?u = "payload_user (resp_data resp)"
      obtain x2 s2 where r2: "retryRequest (searchFunc srv target ?u) 3 s1 = (x2, s2)"
        by fastforce
      have w2: "writes_of (trace s2) = writes_of (trace s)"
        using retry_search(1)[OF r2] w1 by simp
      obtain x3 s3 where r3: "retryRequest (createFunc srv target ?u) 3 s2 = (x3, s3)"
        by fastforce
      from retry_create(2)[OF r3] obtain k where k: "k \<le> 3"
        "writes_of (trace s3) = writes_of (trace s) @
            (case ?u of None \<Rightarrow> [] | Some v \<Rightarrow> replicate k (createUserRequest target v))"
        using w2 by auto
      have "writes_of (trace (snd (migrateUser_try srv userId source target s))) = writes_of (trace s)
          \<or> writes_of (trace (snd (migrateUser_try srv userId source target s))) = writes_of (trace s3)"
        using r1 Inr Some r2 r3 w2 unfolding migrateUser_try_def Let_def
        by (auto simp: data_of_def split: sum.splits list.splits option.splits)
      then show ?thesis
      proof
        assume "writes_of (trace (snd (migrateUser_try srv userId source target s))) = writes_of (trace s)"
        with r1 Inr Some show ?thesis
          by (intro exI[of _ 0]) (auto split: option.splits)
      next
        assume "writes_of (trace (snd (migrateUser_try srv userId source target s))) = writes_of (trace s3)"
        with r1 Inr Some k show ?thesis
          by (intro exI[of _ k]) (auto split: option.splits)
      qed
    qed
  qed
qed

text \<open>
  Claim C4. With \<^verbatim>\<open>maxRetries = 3\<close>, three consecutive failures that are not rate-limit
  responses make \<^verbatim>\<open>retryRequest\<close> throw the third error, in the state the third
  attempt left: nothing more is requested. A failure that is not a rate limit on attempt
  \<open>n\<close>, when \<open>n\<close> is not the last attempt, is followed by \<^verbatim>\<open>sleep(2^n * 1000)\<close>, that is
  \<open>2^n\<close> seconds, and then by attempt \<open>n + 1\<close>. A wrapped axios call is requested at
  least once and at most three times.
\<close>

theorem retryRequest_backoff_exhaustion:
  fixes requestFunc :: "'w state \<Rightarrow> outcome \<times> 'w state"
  assumes "requestFunc s0 = (Rejected e1, s1)" and "rate_limit_of e1 = None"
    and "requestFunc (sleep (Num 2000) s1) = (Rejected e2, s2)" and "rate_limit_of e2 = None"
    and "requestFunc (sleep (Num 4000) s2) = (Rejected e3, s3)" and "rate_limit_of e3 = None"
  shows "retryRequest requestFunc 3 s0 = (Inl e3, s3) \<and>
         (\<forall>n m s e s'. n < m \<and> requestFunc s = (Rejected e, s') \<and> rate_limit_of e = None \<longrightarrow>
            retry_loop requestFunc m n s =
              retry_loop requestFunc m (n + 1) (sleep (Num (2 ^ n * 1000)) s')) \<and>
         (\<forall>(srv :: 'w server) r s. \<exists>k. 1 \<le> k \<and> k \<le> 3 \<and>
            requests_of (trace (snd (retryRequest (axios srv r) 3 s))) =
              requests_of (trace s) @ replicate k r)"
proof -
  have "retry_loop requestFunc 3 1 s0 = retry_loop requestFunc 3 2 (sleep (Num 2000) s1)"
    using retry_loop_backoff[of 1 3 requestFunc s0 e1 s1] assms(1,2) by (simp add: eval_nat_numeral)
  also have "\<dots> = retry_loop requestFunc 3 3 (sleep (Num 4000) s2)"
    using retry_loop_backoff[of 2 3 requestFunc "sleep (Num 2000) s1" e2 s2] assms(3,4)
    by (simp add: eval_nat_numeral)
  also have "\<dots> = (Inl e3, s3)"
    using retry_loop_last[of 3 3 requestFunc "sleep (Num 4000) s2" e3 s3] assms(5,6) by simp
  finally have exhausted: "retryRequest requestFunc 3 s0 = (Inl e3, s3)"
    by (simp add: retryRequest_def)
  have backoff: "\<forall>n m s e s'. n < m \<and> requestFunc s = (Rejected e, s') \<and> rate_limit_of e = None \<longrightarrow>
            retry_loop requestFunc m n s =
              retry_loop requestFunc m (n + 1) (sleep (Num (2 ^ n * 1000)) s')"
    by (simp add: retry_loop_backoff)
  have bounded: "\<exists>k. 1 \<le> k \<and> k \<le> 3 \<and>
            requests_of (trace (snd (retryRequest (axios srv r) 3 s))) =
              requests_of (trace s) @ replicate k r" for srv :: "'w server" and r s
  proof -
    obtain x t where run: "retryRequest (axios srv r) 3 s = (x, t)" by fastforce
    from retry_axios_requests[OF run] run show ?thesis by simp
  qed
  from exhausted backoff bounded show ?thesis by blast
qed

theorem retryRequest_backoff_exhaustion_witness:
  "fst (retryRequest (axios scripted pingRequest) 3 (init exhaustion_script)) =
     Inl \<lparr>err_message = ''Request failed with status code 502'',
          err_response = Some \<lparr>resp_status = 502, resp_headers = [], resp_data = RawData []\<rparr>\<rparr> \<and>
   sleeps_of (trace (snd (retryRequest (axios scripted pingRequest) 3 (init exhaustion_script)))) =
     [Num 2000, Num 4000] \<and>
   requests_of (trace (snd (retryRequest (axios scripted pingRequest) 3 (init exhaustion_script)))) =
     [pingRequest, pingRequest, pingRequest] \<and>
   world (snd (retryRequest (axios scripted pingRequest) 3 (init exhaustion_script))) =
     [ok (RawData ''late'')]"
proof -
  let ?f = "axios scripted pingRequest"
  let ?s1 = "snd (?f (init exhaustion_script))"
  let ?s2 = "snd (?f (sleep (Num 2000) ?s1))"
  let ?s3 = "snd (?f (sleep (Num 4000) ?s2))"
  let ?e = "\<lambda>code msg. \<lparr>err_message = msg,
          err_response = Some \<lparr>resp_status = code, resp_headers = [], resp_data = RawData []\<rparr>\<rparr>"
  have sn: "show_nat 500 = ''500''" "show_nat 503 = ''503''" "show_nat 502 = ''502''"
    by code_simp+
  have h1: "?f (init exhaustion_script) = (Rejected (?e 500 ''Request failed with status code 500''), ?s1)"
    by (simp add: axios_def scripted_def init_def exhaustion_script_def failure_def sn)
  have h2: "?f (sleep (Num 2000) ?s1) = (Rejected (?e 503 ''Request failed with status code 503''), ?s2)"
    by (simp add: axios_def scripted_def init_def exhaustion_script_def failure_def sn sleep_def)
  have h3: "?f (sleep (Num 4000) ?s2) = (Rejected (?e 502 ''Request failed with status code 502''), ?s3)"
    by (simp add: axios_def scripted_def init_def exhaustion_script_def failure_def sn sleep_def)
  have n: "rate_limit_of (?e 500 ''Request failed with status code 500'') = None"
    "rate_limit_of (?e 503 ''Request failed with status code 503'') = None"
    "rate_limit_of (?e 502 ''Request failed with status code 502'') = None"
    by (simp_all add: rate_limit_of_def)
  have r: "retryRequest ?f 3 (init exhaustion_script) = (Inl (?e 502 ''Request failed with status code 502''), ?s3)"
    by (rule retryRequest_backoff_exhaustion[OF h1 n(1) h2 n(2) h3 n(3), THEN conjunct1])
  show ?thesis
    unfolding r
    by (simp add: axios_def scripted_def init_def exhaustion_script_def failure_def sn sleep_def ok_def)
qed

text \<open>
  Claim C1. The code at a failing input. Every \<^verbatim>\<open>continue\<close> of the rate-limit branch
  runs \<^verbatim>\<open>attempt++\<close>, so a rate-limit response uses up an attempt. After three
  rate-limit responses in a row (waits of 2 s, the default 60 s and 1 s) the loop ends and
  \<^verbatim>\<open>retryRequest\<close> returns \<^verbatim>\<open>undefined\<close>: the fourth response, a success, is
  never requested. After two rate-limit responses the next failure is thrown at once,
  as the failure of the last attempt.
\<close>

theorem retryRequest_rate_limit_consumes_attempts:
  "fst (retryRequest (axios scripted pingRequest) 3 (init rate_limit_script)) = Inr None \<and>
   sleeps_of (trace (snd (retryRequest (axios scripted pingRequest) 3 (init rate_limit_script)))) =
     [Num 2000, Num 60000, Num 1000] \<and>
   requests_of (trace (snd (retryRequest (axios scripted pingRequest) 3 (init rate_limit_script)))) =
     [pingRequest, pingRequest, pingRequest] \<and>
   world (snd (retryRequest (axios scripted pingRequest) 3 (init rate_limit_script))) =
     [ok (RawData ''done'')] \<and>
   fst (retryRequest (axios scripted pingRequest) 3 (init recovery_script)) =
     Inl \<lparr>err_message = ''Request failed with status code 500'',
          err_response = Some \<lparr>resp_status = 500, resp_headers = [], resp_data = RawData []\<rparr>\<rparr> \<and>
   sleeps_of (trace (snd (retryRequest (axios scripted pingRequest) 3 (init recovery_script)))) =
     [Num 2000, Num 1000]"
  by code_simp

text \<open>
  Claim C9. A proxy request with a missing (or empty) subdomain, email or token, or with
  a path that does not start with \<^verbatim>\<open>/api/v2/\<close>, is answered with status 400 and the
  state is left as it was: no request is sent, nothing is retried, nothing is logged.
\<close>

theorem proxy_validation:
  assumes "falsy (p_subdomain b) \<or> falsy (p_email b) \<or> falsy (p_token b) \<or>
           (\<exists>url. p_url b = Some url \<and> \<not> prefix ''/api/v2/'' url)"
  shows "proxy srv b s =
           (\<lparr>reply_status = 400,
              reply_body = (if falsy (p_subdomain b) \<or> falsy (p_email b) \<or> falsy (p_token b)
                            then MissingCredentials else InvalidPath)\<rparr>, s)"
  using assms by (auto simp: proxy_def)

theorem proxy_validation_witness:
  "proxy scripted proxy_bad_path (init [ok (RawData ''users'')]) =
     (\<lparr>reply_status = 400, reply_body = InvalidPath\<rparr>, init [ok (RawData ''users'')]) \<and>
   proxy scripted proxy_no_token (init [ok (RawData ''users'')]) =
     (\<lparr>reply_status = 400, reply_body = MissingCredentials\<rparr>, init [ok (RawData ''users'')])"
proof -
  have a: "falsy (p_subdomain proxy_bad_path) \<or> falsy (p_email proxy_bad_path) \<or> falsy (p_token proxy_bad_path) \<or>
           (\<exists>url. p_url proxy_bad_path = Some url \<and> \<not> prefix ''/api/v2/'' url)"
    by (simp add: proxy_bad_path_def falsy_def)
  have b: "falsy (p_subdomain proxy_no_token) \<or> falsy (p_email proxy_no_token) \<or> falsy (p_token proxy_no_token) \<or>
           (\<exists>url. p_url proxy_no_token = Some url \<and> \<not> prefix ''/api/v2/'' url)"
    by (simp add: proxy_no_token_def falsy_def)
  show ?thesis
    using proxy_validation[OF a, of scripted "init [ok (RawData ''users'')]"]
      proxy_validation[OF b, of scripted "init [ok (RawData ''users'')]"]
    by (simp add: proxy_bad_path_def proxy_no_token_def falsy_def)
qed

text \<open>
  Claim C5, as amended. When the comment list is fetched, \<^verbatim>\<open>migrateComments\<close> returns
  \<^verbatim>\<open>undefined\<close>; the number of comments fetched is only logged, as the last effect of
  the call.
\<close>

theorem migrateComments_returns_undefined:
  assumes "retryRequest (axios srv (commentsRequest source sourceTicketId)) 3 s = (Inr (Some resp), s1)"
  shows "fst (migrateComments srv sourceTicketId targetTicketId source target s) = JUndefined \<and>
         last (trace (snd (migrateComments srv sourceTicketId targetTicketId source target s))) =
           ConsoleLog (''Migrated '' @ show_nat (length (payload_comments (resp_data resp))) @ '' comments'')"
  using assms by (simp add: migrateComments_def data_of_def Let_def)

text \<open>
  Claim C5 as stated fails: with one comment fetched the function does not return 1.
\<close>

theorem migrateComments_count_counterexample:
  "fst (retryRequest (axios scripted (commentsRequest acme 7)) 3 (init one_comment_script)) =
     Inr (Some \<lparr>resp_status = 200, resp_headers = [], resp_data = CommentsData [plain_comment ''hello'']\<rparr>) \<and>
   fst (migrateComments scripted 7 8 acme globex (init one_comment_script)) \<noteq> JNumber 1"
  by code_simp

theorem migrateComments_returns_undefined_witness:
  "fst (migrateComments scripted 7 8 acme globex (init one_comment_script)) = JUndefined \<and>
   last (trace (snd (migrateComments scripted 7 8 acme globex (init one_comment_script)))) =
     ConsoleLog ''Migrated 1 comments''"
proof -
  let ?resp = "\<lparr>resp_status = 200, resp_headers = [], resp_data = CommentsData [plain_comment ''hello'']\<rparr>"
  let ?run = "retryRequest (axios scripted (commentsRequest acme 7)) 3 (init one_comment_script)"
  have f: "fst ?run = Inr (Some ?resp)" by code_simp
  then have "?run = (Inr (Some ?resp), snd ?run)" by (simp add: prod_eq_iff)
  from migrateComments_returns_undefined[OF this, of 8 globex]
  have "fst (migrateComments scripted 7 8 acme globex (init one_comment_script)) = JUndefined \<and>
   last (trace (snd (migrateComments scripted 7 8 acme globex (init one_comment_script)))) =
     ConsoleLog (''Migrated '' @ show_nat (length (payload_comments (resp_data ?resp))) @ '' comments'')" .
  moreover have "show_nat (length (payload_comments (resp_data ?resp))) = ''1''" by code_simp
  ultimately show ?thesis by simp
qed

lemma writes_of_Nil [simp]: "writes_of [] = []"
  by (simp add: writes_of_def)

lemma comments_loop_blocks:
  "\<exists>ks. length ks = length (filter (\<lambda>c. \<not> is_api_comment c) cs) \<and>
        (\<forall>k\<in>set ks. 1 \<le> k \<and> k \<le> 3) \<and>
        writes_of (trace (comments_loop srv tid target cs s)) =
          writes_of (trace s) @
            concat (map2 replicate ks
                      (map (appendRequest target tid) (filter (\<lambda>c. \<not> is_api_comment c) cs)))"
proof (induction cs arbitrary: s)
  case Nil
  show ?case by simp
next
  case (Cons c cs)
  show ?case
  proof (cases "is_api_comment c")
    case True
    with Cons.IH[of s] show ?thesis by simp
  next
    case False
    obtain x s1 where run: "retryRequest (axios srv (appendRequest target tid c)) 3 s = (x, s1)"
      by fastforce
    have "req_method (appendRequest target tid c) \<noteq> ''GET''" by (simp add: appendRequest_def)
    from retry_put_writes[OF run this] obtain k where k: "1 \<le> k" "k \<le> 3"
      "writes_of (trace s1) = writes_of (trace s) @ replicate k (appendRequest target tid c)"
      by auto
    define s2 where "s2 = (case x of Inr _ \<Rightarrow> sleep (Num 300) s1
        | Inl error \<Rightarrow> console_error ''Failed to migrate comment:'' (err_message error) s1)"
    have step: "comments_loop srv tid target (c # cs) s = comments_loop srv tid target cs s2"
      using False run by (simp add: s2_def split: sum.splits)
    have w2: "writes_of (trace s2) = writes_of (trace s1)"
      by (simp add: s2_def split: sum.splits)
    from Cons.IH[of s2] obtain ks where ks:
      "length ks = length (filter (\<lambda>c. \<not> is_api_comment c) cs)"
      "\<forall>k\<in>set ks. 1 \<le> k \<and> k \<le> 3"
      "writes_of (trace (comments_loop srv tid target cs s2)) =
          writes_of (trace s2) @
            concat (map2 replicate ks
                      (map (appendRequest target tid) (filter (\<lambda>c. \<not> is_api_comment c) cs)))"
      by blast
    show ?thesis
      using False k ks step w2 by (intro exI[of _ "k # ks"]) simp
  qed
qed

lemma comments_loop_exact:
  assumes accepted: "\<forall>r w. req_method r = ''PUT'' \<longrightarrow> (\<exists>resp w'. srv r w = (Resolved resp, w'))"
  shows "writes_of (trace (comments_loop srv tid target cs s)) =
           writes_of (trace s) @
             map (appendRequest target tid) (filter (\<lambda>c. \<not> is_api_comment c) cs)"
proof (induction cs arbitrary: s)
  case Nil
  show ?case by simp
next
  case (Cons c cs)
  show ?case
  proof (cases "is_api_comment c")
    case True
    with Cons.IH[of s] show ?thesis by simp
  next
    case False
    let ?r = "appendRequest target tid c"
    have put: "req_method ?r = ''PUT''" by (simp add: appendRequest_def)
    with accepted obtain resp w' where "srv ?r (world s) = (Resolved resp, w')" by blast
    then obtain s1 where ax: "axios srv ?r s = (Resolved resp, s1)"
      by (simp add: axios_def)
    have run: "retryRequest (axios srv ?r) 3 s = (Inr (Some resp), s1)"
      using retry_loop_resolved[of 1 3 "axios srv ?r" s resp s1] ax by (simp add: retryRequest_def)
    have "writes_of (trace s1) = writes_of (trace s) @ [?r]"
      using axios_effect(1)[OF ax] put by simp
    with Cons.IH[of "sleep (Num 300) s1"] False run show ?thesis by simp
  qed
qed

lemma migrateComments_fetched:
  assumes "retryRequest (axios srv (commentsRequest source sid)) 3 s = (Inr (Some resp), s1)"
  shows "snd (migrateComments srv sid tid source target s) =
           console_log (''Migrated '' @ show_nat (length (payload_comments (resp_data resp))) @ '' comments'')
             (comments_loop srv tid target (payload_comments (resp_data resp)) s1)"
    and "writes_of (trace s1) = writes_of (trace s)"
proof -
  show "snd (migrateComments srv sid tid source target s) =
           console_log (''Migrated '' @ show_nat (length (payload_comments (resp_data resp))) @ '' comments'')
             (comments_loop srv tid target (payload_comments (resp_data resp)) s1)"
    using assms by (simp add: migrateComments_def data_of_def Let_def)
  show "writes_of (trace s1) = writes_of (trace s)"
    by (rule retry_get_writes[OF assms]) (simp add: commentsRequest_def)
qed

text \<open>
  Claim C6. When the comment list is fetched, the write requests of \<^verbatim>\<open>migrateComments\<close>
  are, in the order of the list, one block per comment whose channel is not
  \<^verbatim>\<open>api\<close>: the append request of that comment, sent once by the retry policy and up
  to three times when an attempt fails. When the service accepts every \<^verbatim>\<open>PUT\<close>, each
  block is a single request. The append request is the \<^verbatim>\<open>PUT\<close> on
  \<^verbatim>\<open>/api/v2/tickets/<targetTicketId>.json\<close> of the target account, with the target's
  credentials, that carries the comment's body and public flag.
\<close>

theorem migrateComments_appends:
  assumes "retryRequest (axios srv (commentsRequest source sourceTicketId)) 3 s = (Inr (Some resp), s1)"
  shows "(\<exists>ks. length ks = length (filter (\<lambda>c. \<not> is_api_comment c) (payload_comments (resp_data resp))) \<and>
            (\<forall>k\<in>set ks. 1 \<le> k \<and> k \<le> 3) \<and>
            writes_of (trace (snd (migrateComments srv sourceTicketId targetTicketId source target s))) =
              writes_of (trace s) @
                concat (map2 replicate ks
                  (map (appendRequest target targetTicketId)
                     (filter (\<lambda>c. \<not> is_api_comment c) (payload_comments (resp_data resp)))))) \<and>
         ((\<forall>r w. req_method r = ''PUT'' \<longrightarrow> (\<exists>answer w'. srv r w = (Resolved answer, w'))) \<longrightarrow>
            writes_of (trace (snd (migrateComments srv sourceTicketId targetTicketId source target s))) =
              writes_of (trace s) @
                map (appendRequest target targetTicketId)
                  (filter (\<lambda>c. \<not> is_api_comment c) (payload_comments (resp_data resp)))) \<and>
         (\<forall>c. appendRequest target targetTicketId c =
              \<lparr>req_method = ''PUT'',
               req_url = ''https://'' @ subdomain target @ ''.zendesk.com/api/v2/tickets/'' @
                           show_nat targetTicketId @ ''.json'',
               req_auth = \<lparr>username = email target @ ''/token'', password = token target\<rparr>,
               req_data = CommentBody (comment_body c) (comment_public c),
               req_headers = []\<rparr>)"
proof -
  note f = migrateComments_fetched(1)[OF assms, of targetTicketId target]
    migrateComments_fetched(2)[OF assms]
  have blocks: "\<exists>ks. length ks = length (filter (\<lambda>c. \<not> is_api_comment c) (payload_comments (resp_data resp))) \<and>
            (\<forall>k\<in>set ks. 1 \<le> k \<and> k \<le> 3) \<and>
            writes_of (trace (snd (migrateComments srv sourceTicketId targetTicketId source target s))) =
              writes_of (trace s) @
                concat (map2 replicate ks
                  (map (appendRequest target targetTicketId)
                     (filter (\<lambda>c. \<not> is_api_comment c) (payload_comments (resp_data resp)))))"
    using comments_loop_blocks[of "payload_comments (resp_data resp)" srv targetTicketId target s1]
    by (simp add: f)
  have exact: "writes_of (trace (snd (migrateComments srv sourceTicketId targetTicketId source target s))) =
              writes_of (trace s) @
                map (appendRequest target targetTicketId)
                  (filter (\<lambda>c. \<not> is_api_comment c) (payload_comments (resp_data resp)))"
    if "\<forall>r w. req_method r = ''PUT'' \<longrightarrow> (\<exists>answer w'. srv r w = (Resolved answer, w'))"
    using comments_loop_exact[OF that, of targetTicketId target "payload_comments (resp_data resp)" s1]
    by (simp add: f)
  have carried: "\<forall>c. appendRequest target targetTicketId c =
              \<lparr>req_method = ''PUT'',
               req_url = ''https://'' @ subdomain target @ ''.zendesk.com/api/v2/tickets/'' @
                           show_nat targetTicketId @ ''.json'',
               req_auth = \<lparr>username = email target @ ''/token'', password = token target\<rparr>,
               req_data = CommentBody (comment_body c) (comment_public c),
               req_headers = []\<rparr>"
    by (simp add: appendRequest_def base_url_def createZendeskAuth_def)
  from blocks exact carried show ?thesis by blast
qed

theorem migrateComments_appends_witness:
  "writes_of (trace (snd (migrateComments comments_service 7 8 acme globex (init ())))) =
     [\<lparr>req_method = ''PUT'',
       req_url = ''https://globex.zendesk.com/api/v2/tickets/8.json'',
       req_auth = \<lparr>username = ''g@globex.test/token'', password = ''hunter2''\<rparr>,
       req_data = CommentBody ''first'' True,
       req_headers = []\<rparr>,
      \<lparr>req_method = ''PUT'',
       req_url = ''https://globex.zendesk.com/api/v2/tickets/8.json'',
       req_auth = \<lparr>username = ''g@globex.test/token'', password = ''hunter2''\<rparr>,
       req_data = CommentBody ''second'' True,
       req_headers = []\<rparr>]"
proof -
  let ?resp = "\<lparr>resp_status = 200, resp_headers = [], resp_data = CommentsData three_comments\<rparr>"
  let ?run = "retryRequest (axios comments_service (commentsRequest acme 7)) 3 (init ())"
  have "fst ?run = Inr (Some ?resp)" by code_simp
  then have fetched: "?run = (Inr (Some ?resp), snd ?run)" by (simp add: prod_eq_iff)
  have accepted: "\<forall>r w. req_method r = ''PUT'' \<longrightarrow> (\<exists>answer w'. comments_service r w = (Resolved answer, w'))"
    by (simp add: comments_service_def stateless_def ok_def)
  have kept: "filter (\<lambda>c. \<not> is_api_comment c) (payload_comments (resp_data ?resp)) =
      [plain_comment ''first'', plain_comment ''second'']"
    by (simp add: payload_comments_def three_comments_def is_api_comment_def api_comment_def plain_comment_def)
  have eight: "show_nat 8 = ''8''" by code_simp
  note appends = migrateComments_appends[OF fetched, of 8 globex]
  from appends[THEN conjunct2, THEN conjunct1] accepted kept
  have "writes_of (trace (snd (migrateComments comments_service 7 8 acme globex (init ())))) =
      [appendRequest globex 8 (plain_comment ''first''), appendRequest globex 8 (plain_comment ''second'')]"
    by (simp add: init_def)
  with appends[THEN conjunct2, THEN conjunct2] show ?thesis
    by (simp add: globex_def plain_comment_def eight)
qed

lemma migrateUser_hit:
  "userCache s (cacheKey userId source target) = Some v \<Longrightarrow>
   migrateUser srv userId source target s = (v, s)"
  by (simp add: migrateUser_def)

lemma migrateUser_miss:
  "userCache s (cacheKey userId source target) = None \<Longrightarrow>
   migrateUser srv userId source target s =
     (case migrateUser_try srv userId source target s of
        (Inr newId, s1) \<Rightarrow> (newId, s1)
      | (Inl error, s1) \<Rightarrow>
          (None, console_error (''Failed to migrate user '' @ show_nat userId @ '':'')
                   (err_message error) s1))"
  by (simp add: migrateUser_def)

lemma migrateUser_writes_try:
  "writes_of (trace (snd (migrateUser srv userId source target s))) = writes_of (trace s) \<or>
   writes_of (trace (snd (migrateUser srv userId source target s))) =
     writes_of (trace (snd (migrateUser_try srv userId source target s)))"
  by (cases "userCache s (cacheKey userId source target)")
     (auto simp: migrateUser_hit migrateUser_miss split: prod.splits sum.splits)

lemma migrateUser_writes:
  "\<exists>k u. k \<le> 3 \<and> writes_of (trace (snd (migrateUser srv userId source target s))) =
      writes_of (trace s) @ replicate k (createUserRequest target u)"
proof -
  from migrateUser_try_writes[of srv userId source target s] obtain k where k: "k \<le> 3"
    "writes_of (trace (snd (migrateUser_try srv userId source target s))) =
      writes_of (trace s) @
        (case fst (retryRequest (axios srv (userRequest source userId)) 3 s) of
           Inr (Some resp) \<Rightarrow>
             (case payload_user (resp_data resp) of
                Some u \<Rightarrow> replicate k (createUserRequest target u)
              | None \<Rightarrow> [])
         | _ \<Rightarrow> [])" by blast
  have "\<exists>k u. k \<le> 3 \<and> writes_of (trace (snd (migrateUser_try srv userId source target s))) =
      writes_of (trace s) @ replicate k (createUserRequest target u)"
  proof (cases "\<exists>resp u. fst (retryRequest (axios srv (userRequest source userId)) 3 s) = Inr (Some resp)
                  \<and> payload_user (resp_data resp) = Some u")
    case True
    then obtain resp u where "fst (retryRequest (axios srv (userRequest source userId)) 3 s) = Inr (Some resp)"
      "payload_user (resp_data resp) = Some u" by blast
    with k show ?thesis by (intro exI[of _ k] exI[of _ u]) simp
  next
    case False
    with k(2) have "writes_of (trace (snd (migrateUser_try srv userId source target s))) = writes_of (trace s)"
      by (auto split: sum.splits option.splits)
    then show ?thesis by (intro exI[of _ 0]) simp
  qed
  moreover have "\<exists>k u. k \<le> 3 \<and> writes_of (trace s) = writes_of (trace s) @ replicate k (createUserRequest target u)"
    by (intro exI[of _ 0]) simp
  ultimately show ?thesis using migrateUser_writes_try[of srv userId source target s] by metis
qed

text \<open>
  Claim C7. When the source account returns the user \<open>u\<close>, every write request of
  \<^verbatim>\<open>migrateUser\<close> is the creation call of that user: its role is \<^verbatim>\<open>agent\<close> when the
  source role is \<^verbatim>\<open>admin\<close> and the source role otherwise, with the source's name and
  email, and \<^verbatim>\<open>verified\<close> is true. (The retry policy sends the call up to three
  times.)
\<close>

theorem migrateUser_role_downgrade:
  assumes "retryRequest (axios srv (userRequest source userId)) 3 s = (Inr (Some resp), s1)"
    and "resp_data resp = UserData u"
  shows "\<exists>k\<le>3. writes_of (trace (snd (migrateUser srv userId source target s))) =
           writes_of (trace s) @
             replicate k
               \<lparr>req_method = ''POST'',
                req_url = ''https://'' @ subdomain target @ ''.zendesk.com/api/v2/users.json'',
                req_auth = createZendeskAuth (email target) (token target),
                req_data = UserBody
                  \<lparr>new_name = user_name u, new_email = user_email u,
                   new_role = (if user_role u = ''admin'' then ''agent'' else user_role u),
                   new_verified = True\<rparr>,
                req_headers = []\<rparr>"
proof -
  from migrateUser_try_writes[of srv userId source target s] assms obtain k where k: "k \<le> 3"
    "writes_of (trace (snd (migrateUser_try srv userId source target s))) =
      writes_of (trace s) @ replicate k (createUserRequest target u)"
    by (auto simp: payload_user_def)
  from migrateUser_writes_try[of srv userId source target s] show ?thesis
  proof
    assume "writes_of (trace (snd (migrateUser srv userId source target s))) = writes_of (trace s)"
    then show ?thesis by (intro exI[of _ 0]) simp
  next
    assume "writes_of (trace (snd (migrateUser srv userId source target s))) =
      writes_of (trace (snd (migrateUser_try srv userId source target s)))"
    with k show ?thesis
      by (intro exI[of _ k]) (simp add: createUserRequest_def newUserData_def base_url_def)
  qed
qed

theorem migrateUser_role_downgrade_witness:
  "writes_of (trace (snd (migrateUser scripted 5 acme globex (init create_script)))) =
     [\<lparr>req_method = ''POST'',
       req_url = ''https://globex.zendesk.com/api/v2/users.json'',
       req_auth = \<lparr>username = ''g@globex.test/token'', password = ''hunter2''\<rparr>,
       req_data = UserBody \<lparr>new_name = ''Alice'', new_email = ''alice@acme.test'',
                            new_role = ''agent'', new_verified = True\<rparr>,
       req_headers = []\<rparr>]"
proof -
  let ?resp = "\<lparr>resp_status = 200, resp_headers = [], resp_data = UserData alice\<rparr>"
  let ?run = "retryRequest (axios scripted (userRequest acme 5)) 3 (init create_script)"
  have "fst ?run = Inr (Some ?resp)" by code_simp
  then have fetched: "?run = (Inr (Some ?resp), snd ?run)" by (simp add: prod_eq_iff)
  from migrateUser_role_downgrade[OF fetched, of alice globex] obtain k where
    "writes_of (trace (snd (migrateUser scripted 5 acme globex (init create_script)))) =
       writes_of (trace (init create_script)) @
         replicate k
           \<lparr>req_method = ''POST'',
            req_url = ''https://'' @ subdomain globex @ ''.zendesk.com/api/v2/users.json'',
            req_auth = createZendeskAuth (email globex) (token globex),
            req_data = UserBody
              \<lparr>new_name = user_name alice, new_email = user_email alice,
               new_role = (if user_role alice = ''admin'' then ''agent'' else user_role alice),
               new_verified = True\<rparr>,
            req_headers = []\<rparr>"
    by auto
  moreover have "length (writes_of (trace (snd (migrateUser scripted 5 acme globex (init create_script))))) = 1"
    by code_simp
  ultimately show ?thesis
    by (simp add: init_def globex_def alice_def createZendeskAuth_def)
qed

text \<open>
  Claim C3, as amended, for calls that run one after the other. When the first call of
  \<^verbatim>\<open>migrateUser\<close> has returned an identifier, a second call that starts after that
  (from the state \<open>s1\<close> the first call left) returns the same identifier and leaves the
  state as it is: no remote call, so the two calls together hold the one creation call
  of the first (at most three write requests, the attempts of the retry policy). When the
  cache holds the key, the cached value is returned at once and the state is left as it
  is. A second call that starts while the first is still waiting for an answer is not
  covered.
\<close>

theorem migrateUser_twice:
  assumes "migrateUser srv userId source target s = (Some i, s1)"
  shows "migrateUser srv' userId source target s1 = (Some i, s1) \<and>
         length (writes_of (trace s1)) \<le> length (writes_of (trace s)) + 3 \<and>
         (\<forall>t v. userCache t (cacheKey userId source target) = Some v \<longrightarrow>
            migrateUser srv' userId source target t = (v, t))"
proof -
  have cached: "userCache s1 (cacheKey userId source target) = Some (Some i)"
  proof (cases "userCache s (cacheKey userId source target)")
    case (Some v)
    with assms show ?thesis by (simp add: migrateUser_hit)
  next
    case None
    obtain res t where run: "migrateUser_try srv userId source target s = (res, t)" by fastforce
    with assms None have "res = Inr (Some i)" "t = s1"
      by (auto simp: migrateUser_miss split: sum.splits)
    with migrateUser_try_cache[OF run] show ?thesis by simp
  qed
  then have again: "migrateUser srv' userId source target s1 = (Some i, s1)"
    by (rule migrateUser_hit)
  from migrateUser_writes[of srv userId source target s] assms
  have bound: "length (writes_of (trace s1)) \<le> length (writes_of (trace s)) + 3" by auto
  have hit: "\<forall>t v. userCache t (cacheKey userId source target) = Some v \<longrightarrow>
            migrateUser srv' userId source target t = (v, t)"
    by (simp add: migrateUser_hit)
  from again bound hit show ?thesis by blast
qed

theorem migrateUser_twice_witness:
  "fst (migrateUser scripted 5 acme globex (init create_script)) = Some 77 \<and>
   migrateUser scripted 5 acme globex (snd (migrateUser scripted 5 acme globex (init create_script))) =
     (Some 77, snd (migrateUser scripted 5 acme globex (init create_script))) \<and>
   length (writes_of (trace (snd (migrateUser scripted 5 acme globex (init create_script))))) = 1"
proof -
  let ?run = "migrateUser scripted 5 acme globex (init create_script)"
  have f: "fst ?run = Some 77" by code_simp
  then have first: "?run = (Some 77, snd ?run)" by (simp add: prod_eq_iff)
  have "length (writes_of (trace (snd ?run))) = 1" by code_simp
  with f migrateUser_twice[OF first, of scripted] show ?thesis by simp
qed

text \<open>
  Claim C3 as stated fails when the first call fails: the creation call of the first
  call is rejected three times and the call returns \<^verbatim>\<open>null\<close>; the second call
  creates the user again and returns 77. Four creation requests were sent.
\<close>

theorem migrateUser_twice_counterexample:
  "fst (migrateUser scripted 5 acme globex (init create_fails_script)) = None \<and>
   fst (migrateUser scripted 5 acme globex
          (snd (migrateUser scripted 5 acme globex (init create_fails_script)))) = Some 77 \<and>
   writes_of (trace (snd (migrateUser scripted 5 acme globex
          (snd (migrateUser scripted 5 acme globex (init create_fails_script)))))) =
     replicate 4 (createUserRequest globex alice)"
  by code_simp

lemma retry_loop_prefix:
  assumes "\<And>s out s1. f s = (out, s1) \<Longrightarrow> prefix (trace s) (trace s1)"
  shows "prefix (trace s) (trace (snd (retry_loop f m a s)))"
  by (rule retry_loop_invariant[where R = "\<lambda>s t. prefix (trace s) (trace t)"])
     (auto intro: assms)

lemma axios_prefix: "axios srv r s = (out, s1) \<Longrightarrow> prefix (trace s) (trace s1)"
  by (simp add: axios_effect(1))

lemma retry_axios_first:
  "\<exists>out es. trace (snd (retryRequest (axios srv r) 3 s)) = trace s @ Http r out # es"
proof -
  obtain out s1 where ax: "axios srv r s = (out, s1)" by fastforce
  note tr = axios_effect(1)[OF ax]
  have later: "\<exists>es. trace (snd (retry_loop (axios srv r) 3 2 s3)) = trace s @ Http r out # es"
    if "prefix (trace s1) (trace s3)" for s3
  proof -
    have "prefix (trace s3) (trace (snd (retry_loop (axios srv r) 3 2 s3)))"
      by (rule retry_loop_prefix) (rule axios_prefix)
    with that have "prefix (trace s1) (trace (snd (retry_loop (axios srv r) 3 2 s3)))"
      by (rule prefix_order.trans)
    then show ?thesis using tr by (auto simp: prefix_def)
  qed
  show ?thesis
  proof (cases out)
    case (Resolved resp)
    with ax tr show ?thesis by (simp add: retryRequest_def retry_loop_resolved)
  next
    case (Rejected e)
    show ?thesis
    proof (cases "rate_limit_of e")
      case (Some lim)
      let ?s3 = "sleep (num_times (retryAfter_of lim) 1000)
          (console_log (''Rate limited. Waiting '' @ show_num (retryAfter_of lim) @ ''s...'') s1)"
      have "prefix (trace s1) (trace ?s3)" by (simp add: prefix_def)
      from later[OF this] obtain es where
        "trace (snd (retry_loop (axios srv r) 3 2 ?s3)) = trace s @ Http r out # es" by blast
      moreover have "retryRequest (axios srv r) 3 s = retry_loop (axios srv r) 3 2 ?s3"
        using retry_loop_limited[of 1 3 "axios srv r" s e s1 lim] ax Rejected Some
        by (simp add: retryRequest_def eval_nat_numeral)
      ultimately show ?thesis by auto
    next
      case None
      let ?s3 = "sleep (Num (2 ^ 1 * 1000)) s1"
      have "prefix (trace s1) (trace ?s3)" by (simp add: prefix_def)
      from later[OF this] obtain es where
        "trace (snd (retry_loop (axios srv r) 3 2 ?s3)) = trace s @ Http r out # es" by blast
      moreover have "retryRequest (axios srv r) 3 s = retry_loop (axios srv r) 3 2 ?s3"
        using retry_loop_backoff[of 1 3 "axios srv r" s e s1] ax Rejected None
        by (simp add: retryRequest_def eval_nat_numeral)
      ultimately show ?thesis by auto
    qed
  qed
qed

lemma searchFunc_prefix: "searchFunc srv target u s = (out, s1) \<Longrightarrow> prefix (trace s) (trace s1)"
  by (auto simp: searchFunc_def dest: axios_prefix split: option.splits)

lemma createFunc_prefix: "createFunc srv target u s = (out, s1) \<Longrightarrow> prefix (trace s) (trace s1)"
  by (auto simp: createFunc_def dest: axios_prefix split: option.splits)

lemma retry_prefix:
  assumes "retryRequest f m s = (x, s1)"
    and "\<And>s out s1. f s = (out, s1) \<Longrightarrow> prefix (trace s) (trace s1)"
  shows "prefix (trace s) (trace s1)"
  using retry_loop_prefix[of f s m 1, OF assms(2)] assms(1) by (simp add: retryRequest_def)

lemma migrateUser_try_first:
  "\<exists>out es. trace (snd (migrateUser_try srv userId source target s)) =
      trace s @ Http (userRequest source userId) out # es"
proof -
  obtain x1 s1 where r1: "retryRequest (axios srv (userRequest source userId)) 3 s = (x1, s1)"
    by fastforce
  from retry_axios_first[of srv "userRequest source userId" s] r1 obtain out es where
    first: "trace s1 = trace s @ Http (userRequest source userId) out # es" by auto
  have "prefix (trace s1) (trace (snd (migrateUser_try srv userId source target s)))"
  proof -
    have search: "prefix (trace s1) (trace s2)"
      if "retryRequest (searchFunc srv target u) 3 s1 = (x2, s2)" for u x2 s2
      by (rule retry_prefix[OF that]) (rule searchFunc_prefix)
    have create: "prefix (trace s2) (trace s3)"
      if "retryRequest (createFunc srv target u) 3 s2 = (x3, s3)" for u x3 s2 s3
      by (rule retry_prefix[OF that]) (rule createFunc_prefix)
    show ?thesis
      unfolding migrateUser_try_def Let_def using r1
      by (auto split: prod.splits sum.splits list.splits option.splits
               dest!: search create intro: prefix_order.trans)
  qed
  with first show ?thesis by (auto simp: prefix_def)
qed

lemma migrateUser_miss_first:
  assumes "userCache t (cacheKey userId source target) = None"
  shows "\<exists>out es. trace (snd (migrateUser srv userId source target t)) =
           trace t @ Http (userRequest source userId) out # es"
proof -
  from migrateUser_try_first[of srv userId source target t] obtain out es where
    "trace (snd (migrateUser_try srv userId source target t)) =
       trace t @ Http (userRequest source userId) out # es" by blast
  then show ?thesis
    by (auto simp: migrateUser_miss[OF assms] split: prod.splits sum.splits)
qed

lemma retry_loop_resolved_from:
  "fst (retry_loop f m a s) = Inr (Some r) \<Longrightarrow> \<exists>t t'. f t = (Resolved r, t')"
proof (induction n \<equiv> "m + 1 - a" arbitrary: a s)
  case 0
  then have "\<not> a \<le> m" by simp
  with 0 show ?case by (simp add: retry_loop_done)
next
  case (Suc n)
  then have le: "a \<le> m" and n: "n = m + 1 - (a + 1)" by simp_all
  obtain out s1 where fs: "f s = (out, s1)" by fastforce
  show ?case
  proof (cases out)
    case (Resolved resp)
    with fs le Suc.prems have "resp = r" by (simp add: retry_loop_resolved)
    with fs Resolved show ?thesis by blast
  next
    case (Rejected e)
    show ?thesis
    proof (cases "rate_limit_of e")
      case (Some lim)
      with fs le Rejected Suc.prems Suc.hyps(1)[OF n] show ?thesis
        by (simp add: retry_loop_limited)
    next
      case None
      show ?thesis
      proof (cases "a = m")
        case True
        with fs Rejected None Suc.prems show ?thesis by (simp add: retry_loop_last)
      next
        case False
        with le have "a < m" by simp
        with fs Rejected None Suc.prems Suc.hyps(1)[OF n] show ?thesis
          by (simp add: retry_loop_backoff)
      qed
    qed
  qed
qed

lemma axios_answer:
  "axios srv r t = (Resolved resp, t') \<Longrightarrow> \<exists>w w'. srv r w = (Resolved resp, w')"
  by (auto simp: axios_def split: prod.splits)

lemma retry_search_ids:
  assumes "answers_with_ids srv"
    and "retryRequest (searchFunc srv target u) 3 s = (Inr (Some resp), s1)"
  shows "has_ids (resp_data resp)"
proof -
  from assms(2) have "fst (retry_loop (searchFunc srv target u) 3 1 s) = Inr (Some resp)"
    by (simp add: retryRequest_def)
  then obtain t t' where "searchFunc srv target u t = (Resolved resp, t')"
    using retry_loop_resolved_from by blast
  then obtain r w w' where "srv r w = (Resolved resp, w')"
    by (auto simp: searchFunc_def split: option.splits dest: axios_answer)
  with assms(1) show ?thesis by (auto simp: answers_with_ids_def)
qed

lemma retry_create_ids:
  assumes "answers_with_ids srv"
    and "retryRequest (createFunc srv target u) 3 s = (Inr (Some resp), s1)"
  shows "has_ids (resp_data resp)"
proof -
  from assms(2) have "fst (retry_loop (createFunc srv target u) 3 1 s) = Inr (Some resp)"
    by (simp add: retryRequest_def)
  then obtain t t' where "createFunc srv target u t = (Resolved resp, t')"
    using retry_loop_resolved_from by blast
  then obtain r w w' where "srv r w = (Resolved resp, w')"
    by (auto simp: createFunc_def split: option.splits dest: axios_answer)
  with assms(1) show ?thesis by (auto simp: answers_with_ids_def)
qed

lemma has_ids_first: "has_ids d \<Longrightarrow> payload_users d = u # us \<Longrightarrow> user_id u \<noteq> None"
  by (auto simp: has_ids_def payload_users_def split: payload.splits)

lemma has_ids_user: "has_ids d \<Longrightarrow> payload_user d = Some u \<Longrightarrow> user_id u \<noteq> None"
  by (auto simp: has_ids_def payload_user_def split: payload.splits)

lemma migrateUser_try_ids:
  assumes "answers_with_ids srv"
    and "migrateUser_try srv userId source target s = (Inr i, s')"
  shows "i \<noteq> None"
proof -
  have search: "has_ids (resp_data resp)"
    if "retryRequest (searchFunc srv target u) 3 t = (Inr (Some resp), t')" for u t t' resp
    using retry_search_ids[OF assms(1) that] .
  have create: "has_ids (resp_data resp)"
    if "retryRequest (createFunc srv target u) 3 t = (Inr (Some resp), t')" for u t t' resp
    using retry_create_ids[OF assms(1) that] .
  show ?thesis
    using assms(2) unfolding migrateUser_try_def Let_def
    by (auto simp: data_of_def split: prod.splits sum.splits list.splits option.splits
             dest!: search create dest: has_ids_first has_ids_user)
qed

text \<open>
  Claim C10, as amended. Provided every user in an answer of the service has an
  \<^verbatim>\<open>id\<close>, every value stored in \<^verbatim>\<open>userCache\<close> is an identifier, never
  \<^verbatim>\<open>null\<close>: the empty cache of a fresh process has the property and \<^verbatim>\<open>migrateUser\<close>
  keeps it. Then, when \<^verbatim>\<open>migrateUser\<close> returns \<^verbatim>\<open>null\<close>, the cache is as it was and
  has no entry for the key, so the next call with the same arguments (started after this
  one has returned) starts the remote resolution again with the request for the source
  user.
\<close>

theorem userCache_invariant:
  assumes "cache_inv (userCache s)" and "answers_with_ids srv"
  shows "cache_inv (userCache (init w)) \<and>
         cache_inv (userCache (snd (migrateUser srv userId source target s))) \<and>
         (fst (migrateUser srv userId source target s) = None \<longrightarrow>
            userCache (snd (migrateUser srv userId source target s)) = userCache s \<and>
            userCache s (cacheKey userId source target) = None \<and>
            (\<exists>out es.
               trace (snd (migrateUser srv' userId source target
                             (snd (migrateUser srv userId source target s)))) =
                 trace (snd (migrateUser srv userId source target s)) @
                   Http (userRequest source userId) out # es))"
proof -
  let ?key = "cacheKey userId source target"
  let ?run = "migrateUser srv userId source target s"
  have fresh: "cache_inv (userCache (init w))" by (simp add: cache_inv_def init_def)
  show ?thesis
  proof (cases "userCache s ?key")
    case (Some v)
    then have run: "?run = (v, s)" by (rule migrateUser_hit)
    have "v \<noteq> None"
    proof
      assume "v = None"
      with Some have "userCache s ?key = Some None" by simp
      with assms(1) show False by (simp add: cache_inv_def)
    qed
    with run assms(1) fresh show ?thesis by auto
  next
    case None
    obtain res t where tried: "migrateUser_try srv userId source target s = (res, t)" by fastforce
    note cache = migrateUser_try_cache[OF tried]
    show ?thesis
    proof (cases res)
      case (Inr i)
      with tried None have run: "?run = (i, t)" by (simp add: migrateUser_miss)
      from migrateUser_try_ids[OF assms(2)] tried Inr have some: "i \<noteq> None" by blast
      with cache Inr assms(1) have "cache_inv (userCache t)" by (simp add: cache_inv_def)
      with run some fresh show ?thesis by auto
    next
      case (Inl e)
      let ?t = "console_error (''Failed to migrate user '' @ show_nat userId @ '':'') (err_message e) t"
      from Inl tried None have run: "?run = (None, ?t)" by (simp add: migrateUser_miss)
      from cache Inl have same: "userCache ?t = userCache s" by simp
      with None have "userCache ?t ?key = None" by simp
      from migrateUser_miss_first[OF this, of srv'] obtain out es where
        "trace (snd (migrateUser srv' userId source target ?t)) =
           trace ?t @ Http (userRequest source userId) out # es" by blast
      with run same None assms(1) fresh show ?thesis by auto
    qed
  qed
qed

theorem userCache_invariant_witness:
  "fst (migrateUser create_refused_service 5 acme globex (init ())) = None \<and>
   cache_inv (userCache (snd (migrateUser create_refused_service 5 acme globex (init ())))) \<and>
   userCache (snd (migrateUser create_refused_service 5 acme globex (init ()))) = Map.empty \<and>
   (\<exists>out es.
      trace (snd (migrateUser create_refused_service 5 acme globex
                    (snd (migrateUser create_refused_service 5 acme globex (init ()))))) =
        trace (snd (migrateUser create_refused_service 5 acme globex (init ()))) @
          Http (userRequest acme 5) out # es)"
proof -
  have inv: "cache_inv (userCache (init ()))"
    by (simp add: cache_inv_def init_def)
  have ids: "answers_with_ids create_refused_service"
    by (auto simp: answers_with_ids_def create_refused_service_def stateless_def ok_def failure_def
          has_ids_def alice_def split: if_splits)
  have failed: "fst (migrateUser create_refused_service 5 acme globex (init ())) = None"
    by code_simp
  from userCache_invariant[OF inv ids, of "()" 5 acme globex create_refused_service] failed
  show ?thesis by (simp add: init_def)
qed

text \<open>
  Claim C10 as stated fails: the code stores whatever \<^verbatim>\<open>id\<close> the answer holds. The
  target's search answers with a user that has no \<^verbatim>\<open>id\<close>; the call stores \<^verbatim>\<open>null\<close>
  under the key and returns it, and the next call returns the cached \<^verbatim>\<open>null\<close>
  with no request.
\<close>

theorem userCache_invariant_counterexample:
  "fst (migrateUser scripted 5 acme globex (init null_id_script)) = None \<and>
   userCache (snd (migrateUser scripted 5 acme globex (init null_id_script)))
     (cacheKey 5 acme globex) = Some None \<and>
   fst (migrateUser scripted 5 acme globex
          (snd (migrateUser scripted 5 acme globex (init null_id_script)))) = None \<and>
   trace (snd (migrateUser scripted 5 acme globex
                 (snd (migrateUser scripted 5 acme globex (init null_id_script))))) =
     trace (snd (migrateUser scripted 5 acme globex (init null_id_script)))"
  by code_simp

text \<open>
  Claim C2, as amended. A dry run that fetches the source ticket answers with the
  success reply that carries the ticket id and the subject and is tagged as a dry run.
  It sends no ticket creation and no comment update: the only write requests it can send
  are those of the user creation of \<^verbatim>\<open>migrateUser\<close>, which runs before the dry-run
  check, and it sends no write request at all when \<^verbatim>\<open>options.migrateUsers\<close> is off.
\<close>

theorem dryRun_writes:
  assumes "opt_dryRun options"
    and "retryRequest (axios srv (ticketRequest source ticketId)) 3
           (console_log (''Migrating ticket #'' @ show_nat ticketId) s) = (Inr (Some resp), s1)"
    and "resp_data resp = TicketData sourceTicket"
  shows "fst (migrateTicket srv ticketId source target options s) =
           \<lparr>reply_status = 200, reply_body = DryRun ticketId (ticket_subject sourceTicket)\<rparr> \<and>
         (\<exists>k u. k \<le> 3 \<and>
            writes_of (trace (snd (migrateTicket srv ticketId source target options s))) =
              writes_of (trace s) @ replicate k (createUserRequest target u)) \<and>
         (\<not> opt_migrateUsers options \<longrightarrow>
            writes_of (trace (snd (migrateTicket srv ticketId source target options s))) =
              writes_of (trace s))"
proof -
  have w1: "writes_of (trace s1) = writes_of (trace s)"
    using retry_get_writes[OF assms(2)] by (simp add: ticketRequest_def)
  show ?thesis
  proof (cases "opt_migrateUsers options")
    case False
    with assms have "migrateTicket srv ticketId source target options s =
        (\<lparr>reply_status = 200, reply_body = DryRun ticketId (ticket_subject sourceTicket)\<rparr>, s1)"
      by (simp add: migrateTicket_def migrateTicket_try_def data_of_def payload_ticket_def)
    with w1 False show ?thesis by (auto intro!: exI[of _ 0])
  next
    case True
    obtain requesterId s2 where
      user: "migrateUser srv (ticket_requester_id sourceTicket) source target s1 = (requesterId, s2)"
      by fastforce
    with True assms have run: "migrateTicket srv ticketId source target options s =
        (\<lparr>reply_status = 200, reply_body = DryRun ticketId (ticket_subject sourceTicket)\<rparr>, s2)"
      by (simp add: migrateTicket_def migrateTicket_try_def data_of_def payload_ticket_def)
    from migrateUser_writes[of srv "ticket_requester_id sourceTicket" source target s1] user w1
    obtain k u where "k \<le> 3"
      "writes_of (trace s2) = writes_of (trace s) @ replicate k (createUserRequest target u)"
      by auto
    with run True show ?thesis by auto
  qed
qed

theorem dryRun_writes_witness:
  "fst (migrateTicket scripted 7 acme globex dry_only (init dry_run_script)) =
     \<lparr>reply_status = 200, reply_body = DryRun 7 ''Printer on fire''\<rparr> \<and>
   writes_of (trace (snd (migrateTicket scripted 7 acme globex dry_only (init dry_run_script)))) = []"
proof -
  let ?resp = "\<lparr>resp_status = 200, resp_headers = [], resp_data = TicketData printer_ticket\<rparr>"
  let ?run = "retryRequest (axios scripted (ticketRequest acme 7)) 3
      (console_log (''Migrating ticket #'' @ show_nat 7) (init dry_run_script))"
  have "fst ?run = Inr (Some ?resp)" by code_simp
  then have fetched: "?run = (Inr (Some ?resp), snd ?run)" by (simp add: prod_eq_iff)
  have dry: "opt_dryRun dry_only" by (simp add: dry_only_def)
  from dryRun_writes[OF dry fetched, of printer_ticket globex]
  show ?thesis by (simp add: dry_only_def printer_ticket_def init_def)
qed

text \<open>
  Claim C2 as stated fails when \<^verbatim>\<open>options.migrateUsers\<close> is on: the requester is not
  yet in the target account, and the dry run creates it there.
\<close>

theorem dryRun_writes_counterexample:
  "fst (migrateTicket scripted 7 acme globex dry_with_users (init dry_run_script)) =
     \<lparr>reply_status = 200, reply_body = DryRun 7 ''Printer on fire''\<rparr> \<and>
   writes_of (trace (snd (migrateTicket scripted 7 acme globex dry_with_users (init dry_run_script)))) =
     [createUserRequest globex alice]"
  by code_simp

lemma comments_loop_attempts_all:
  assumes "c \<in> set cs" and "\<not> is_api_comment c"
  shows "appendRequest target tid c \<in> set (writes_of (trace (comments_loop srv tid target cs s)))"
proof -
  let ?cs = "filter (\<lambda>c. \<not> is_api_comment c) cs"
  from comments_loop_blocks[of cs srv tid target s] obtain ks where ks:
    "length ks = length ?cs" "\<forall>k\<in>set ks. 1 \<le> k \<and> k \<le> 3"
    "writes_of (trace (comments_loop srv tid target cs s)) =
       writes_of (trace s) @ concat (map2 replicate ks (map (appendRequest target tid) ?cs))"
    by blast
  from assms have "c \<in> set ?cs" by simp
  then obtain i where i: "i < length ?cs" "?cs ! i = c" unfolding in_set_conv_nth by blast
  with ks(1) have "(ks ! i, appendRequest target tid c) \<in> set (zip ks (map (appendRequest target tid) ?cs))"
    unfolding in_set_zip by (intro exI[of _ i]) simp
  moreover from i ks(1,2) have "1 \<le> ks ! i" by simp
  then have "appendRequest target tid c \<in> set (replicate (ks ! i) (appendRequest target tid c))"
    by simp
  ultimately have "appendRequest target tid c \<in>
      set (concat (map2 replicate ks (map (appendRequest target tid) ?cs)))"
    by (auto intro!: bexI[of _ "(ks ! i, appendRequest target tid c)"])
  with ks(3) show ?thesis by simp
qed

text \<open>
  Claim C8. Once the source ticket is fetched and the target ticket is created, the
  reply of \<^verbatim>\<open>POST /api/migrate-ticket\<close> is the success reply, whatever happens to the
  comments. When the comment list is fetched, the append request of every comment that is
  not an API comment is sent, whatever the outcome of the other appends; and when the
  append of one comment throws (its retries are exhausted), the loop logs the failure
  and goes on with the rest of the list.
\<close>

theorem comment_failure_not_fatal:
  assumes "retryRequest (axios srv (ticketRequest source ticketId)) 3
             (console_log (''Migrating ticket #'' @ show_nat ticketId) s) =
           (Inr (Some ticketResponse), s1)"
    and "resp_data ticketResponse = TicketData sourceTicket"
    and "(if opt_migrateUsers options
          then migrateUser srv (ticket_requester_id sourceTicket) source target s1
          else (None, s1)) = (requesterId, s2)"
    and "\<not> opt_dryRun options"
    and "retryRequest (axios srv (createTicketRequest target (draft_of sourceTicket requesterId))) 3 s2 =
           (Inr (Some createResponse), s3)"
    and "resp_data createResponse = TicketData newTicket"
  shows "fst (migrateTicket srv ticketId source target options s) =
           \<lparr>reply_status = 200,
            reply_body = Migrated ticketId (ticket_id newTicket) (ticket_subject sourceTicket)\<rparr> \<and>
         (\<forall>commentsResponse s4 c.
            opt_migrateComments options \<and>
            retryRequest (axios srv (commentsRequest source ticketId)) 3 s3 =
              (Inr (Some commentsResponse), s4) \<and>
            c \<in> set (payload_comments (resp_data commentsResponse)) \<and> \<not> is_api_comment c \<longrightarrow>
            appendRequest target (ticket_id newTicket) c \<in>
              set (writes_of (trace (snd (migrateTicket srv ticketId source target options s))))) \<and>
         (\<forall>c rest t e t'.
            \<not> is_api_comment c \<and>
            retryRequest (axios srv (appendRequest target (ticket_id newTicket) c)) 3 t = (Inl e, t') \<longrightarrow>
            comments_loop srv (ticket_id newTicket) target (c # rest) t =
              comments_loop srv (ticket_id newTicket) target rest
                (console_error ''Failed to migrate comment:'' (err_message e) t'))"
proof -
  let ?final = "if opt_migrateComments options
                then snd (migrateComments srv ticketId (ticket_id newTicket) source target s3)
                else s3"
  have run: "migrateTicket srv ticketId source target options s =
      (\<lparr>reply_status = 200,
        reply_body = Migrated ticketId (ticket_id newTicket) (ticket_subject sourceTicket)\<rparr>, ?final)"
    using assms
    by (cases "opt_migrateUsers options")
       (simp_all add: migrateTicket_def migrateTicket_try_def data_of_def payload_ticket_def)
  have attempted: "appendRequest target (ticket_id newTicket) c \<in>
      set (writes_of (trace (snd (migrateTicket srv ticketId source target options s))))"
    if "opt_migrateComments options"
      and "retryRequest (axios srv (commentsRequest source ticketId)) 3 s3 =
              (Inr (Some commentsResponse), s4)"
      and "c \<in> set (payload_comments (resp_data commentsResponse))" and "\<not> is_api_comment c"
    for commentsResponse s4 c
    using comments_loop_attempts_all[OF that(3,4), of target "ticket_id newTicket" srv s4]
    by (simp add: run that(1) migrateComments_fetched(1)[OF that(2)])
  have goes_on: "comments_loop srv (ticket_id newTicket) target (c # rest) t =
      comments_loop srv (ticket_id newTicket) target rest
        (console_error ''Failed to migrate comment:'' (err_message e) t')"
    if "\<not> is_api_comment c"
      and "retryRequest (axios srv (appendRequest target (ticket_id newTicket) c)) 3 t = (Inl e, t')"
    for c rest t e t'
    using that by simp
  show ?thesis
  proof (intro conjI allI impI)
    show "fst (migrateTicket srv ticketId source target options s) =
           \<lparr>reply_status = 200,
            reply_body = Migrated ticketId (ticket_id newTicket) (ticket_subject sourceTicket)\<rparr>"
      by (simp add: run)
  next
    fix commentsResponse s4 c
    assume "opt_migrateComments options \<and>
            retryRequest (axios srv (commentsRequest source ticketId)) 3 s3 =
              (Inr (Some commentsResponse), s4) \<and>
            c \<in> set (payload_comments (resp_data commentsResponse)) \<and> \<not> is_api_comment c"
    then show "appendRequest target (ticket_id newTicket) c \<in>
              set (writes_of (trace (snd (migrateTicket srv ticketId source target options s))))"
      using attempted by blast
  next
    fix c rest t e t'
    assume "\<not> is_api_comment c \<and>
            retryRequest (axios srv (appendRequest target (ticket_id newTicket) c)) 3 t = (Inl e, t')"
    then show "comments_loop srv (ticket_id newTicket) target (c # rest) t =
              comments_loop srv (ticket_id newTicket) target rest
                (console_error ''Failed to migrate comment:'' (err_message e) t')"
      using goes_on by blast
  qed
qed

theorem comment_failure_not_fatal_witness:
  "fst (migrateTicket scripted 7 acme globex migrate_comments_only (init comment_fails_script)) =
     \<lparr>reply_status = 200, reply_body = Migrated 7 70 ''Printer on fire''\<rparr> \<and>
   writes_of (trace (snd (migrateTicket scripted 7 acme globex migrate_comments_only
                            (init comment_fails_script)))) =
     [createTicketRequest globex (draft_of printer_ticket None),
      appendRequest globex 70 (plain_comment ''first''),
      appendRequest globex 70 (plain_comment ''first''),
      appendRequest globex 70 (plain_comment ''first''),
      appendRequest globex 70 (plain_comment ''second'')] \<and>
   ConsoleError ''Failed to migrate comment:'' ''Request failed with status code 500'' \<in>
     set (trace (snd (migrateTicket scripted 7 acme globex migrate_comments_only
                        (init comment_fails_script))))"
proof -
  let ?s0 = "console_log (''Migrating ticket #'' @ show_nat 7) (init comment_fails_script)"
  let ?fetch = "retryRequest (axios scripted (ticketRequest acme 7)) 3 ?s0"
  let ?create = "retryRequest (axios scripted (createTicketRequest globex (draft_of printer_ticket None))) 3
      (snd ?fetch)"
  let ?ok = "\<lambda>d. \<lparr>resp_status = 200, resp_headers = [], resp_data = d\<rparr>"
  have "fst ?fetch = Inr (Some (?ok (TicketData printer_ticket)))" by code_simp
  then have fetched: "?fetch = (Inr (Some (?ok (TicketData printer_ticket))), snd ?fetch)"
    by (simp add: prod_eq_iff)
  have "fst ?create = Inr (Some (?ok (TicketData printer_created)))" by code_simp
  then have created: "?create = (Inr (Some (?ok (TicketData printer_created))), snd ?create)"
    by (simp add: prod_eq_iff)
  have user: "(if opt_migrateUsers migrate_comments_only
          then migrateUser scripted (ticket_requester_id printer_ticket) acme globex (snd ?fetch)
          else (None, snd ?fetch)) = (None, snd ?fetch)"
    by (simp add: migrate_comments_only_def)
  have wet: "\<not> opt_dryRun migrate_comments_only" by (simp add: migrate_comments_only_def)
  have reply: "fst (migrateTicket scripted 7 acme globex migrate_comments_only (init comment_fails_script)) =
     \<lparr>reply_status = 200,
      reply_body = Migrated 7 (ticket_id printer_created) (ticket_subject printer_ticket)\<rparr>"
    by (rule comment_failure_not_fatal[OF fetched _ user wet created, THEN conjunct1]) simp_all
  have rest: "writes_of (trace (snd (migrateTicket scripted 7 acme globex migrate_comments_only
                            (init comment_fails_script)))) =
     [createTicketRequest globex (draft_of printer_ticket None),
      appendRequest globex 70 (plain_comment ''first''),
      appendRequest globex 70 (plain_comment ''first''),
      appendRequest globex 70 (plain_comment ''first''),
      appendRequest globex 70 (plain_comment ''second'')] \<and>
   ConsoleError ''Failed to migrate comment:'' ''Request failed with status code 500'' \<in>
     set (trace (snd (migrateTicket scripted 7 acme globex migrate_comments_only
                        (init comment_fails_script))))"
    by code_simp
  from reply rest show ?thesis by (simp add: printer_created_def printer_ticket_def)
qed

end
